theory Spec2Isabelle
  imports Complex_Main "HOL-Library.Sublist"
begin

section \<open>The JavaScript runtime, as far as the services use it\<close>

text \<open>
  Numbers are modelled as real numbers (prices, returns, thresholds), as integers (years,
  day offsets, time stamps in milliseconds) or as naturals (counters, array indices). The
  rounding of IEEE doubles, \<open>NaN\<close> and the infinities are not modelled: a division by 0
  has the value 0 here, and no property below depends on one. An exception is a value of
  \<open>jsError\<close>; a computation that may throw returns \<open>jsError + 'a\<close>, with \<open>Inl\<close> for the
  throw; what the services throw are Error objects, which have a message. A method
  \<open>_name\<close> is named \<open>name\<close> here, and the \<open>analyze\<close> of an engine carries the
  engine's name.
\<close>

datatype jsError =
    Error string
  | TypeError string
  | ReferenceError string

fun message :: "jsError \<Rightarrow> string" where
  "message (Error m) = m"
| "message (TypeError m) = m"
| "message (ReferenceError m) = m"

text \<open>\<open>try { body } catch (error) { handler(error) }\<close>: the handler runs on a throw of the
  body, and what the handler throws propagates.\<close>

definition tryCatch :: "(jsError + 'a) \<Rightarrow> (jsError \<Rightarrow> jsError + 'a) \<Rightarrow> jsError + 'a" where
  "tryCatch body handler = (case body of Inl e \<Rightarrow> handler e | Inr v \<Rightarrow> Inr v)"

subsection \<open>Date\<close>

text \<open>
  A \<open>Date\<close> is its time value: milliseconds since 1970-01-01T00:00:00Z. The host's time
  zone is taken to be UTC, so the local calendar fields (\<open>getFullYear\<close>, \<open>getMonth\<close>,
  \<open>getDate\<close>, \<open>getDay\<close>, \<open>setDate\<close>, \<open>new Date(y, m, d)\<close>) and the UTC text of
  \<open>toISOString\<close> describe the same calendar day. \<open>daysFromCivil\<close> and \<open>civilFromDays\<close>
  are the proleptic Gregorian calendar (ECMAScript's \<open>MakeDay\<close> and \<open>YearFromTime\<close>,
  \<open>MonthFromTime\<close>, \<open>DateFromTime\<close>), months counted from 1 here.
\<close>

type_synonym jsDate = int

definition msPerDay :: int where
  "msPerDay = 86400000"

definition daysFromCivil :: "int \<Rightarrow> int \<Rightarrow> int \<Rightarrow> int" where
  "daysFromCivil y m d =
     (let y' = (if m \<le> 2 then y - 1 else y);
          era = y' div 400;
          yoe = y' - era * 400;
          mp = (if 2 < m then m - 3 else m + 9);
          doy = (153 * mp + 2) div 5 + d - 1;
          doe = yoe * 365 + yoe div 4 - yoe div 100 + doy
      in era * 146097 + doe - 719468)"

text \<open>The day number split into the 400-year era, the century, the four-year block and
  the year in it (years starting on 1 March), then the month and the day.\<close>

definition civilFromDays :: "int \<Rightarrow> int \<times> int \<times> int" where
  "civilFromDays z0 =
     (let z = z0 + 719468;
          era = z div 146097;
          doe = z - era * 146097;
          cent = min 3 (doe div 36524);
          r = doe - 36524 * cent;
          quad = r div 1461;
          s = r - 1461 * quad;
          yr = min 3 (s div 365);
          doy = s - 365 * yr;
          yoe = 100 * cent + 4 * quad + yr;
          mp = (5 * doy + 2) div 153;
          d = doy - (153 * mp + 2) div 5 + 1;
          m = (if mp < 10 then mp + 3 else mp - 9);
          y = yoe + era * 400
      in (if m \<le> 2 then y + 1 else y, m, d))"

text \<open>\<open>new Date(year, monthIndex, day)\<close>: months from 0, a month index or a day out of
  range carries over, and a year from 0 to 99 means 1900 + year.\<close>

definition newDate :: "int \<Rightarrow> int \<Rightarrow> int \<Rightarrow> jsDate" where
  "newDate year monthIndex day =
     (let y = (if 0 \<le> year \<and> year \<le> 99 then 1900 + year else year)
      in (daysFromCivil (y + monthIndex div 12) (monthIndex mod 12 + 1) 1 + (day - 1)) * msPerDay)"

definition getFullYear :: "jsDate \<Rightarrow> int" where
  "getFullYear t = fst (civilFromDays (t div msPerDay))"

definition getMonth :: "jsDate \<Rightarrow> int" where
  "getMonth t = fst (snd (civilFromDays (t div msPerDay))) - 1"

definition getDate :: "jsDate \<Rightarrow> int" where
  "getDate t = snd (snd (civilFromDays (t div msPerDay)))"

definition getDay :: "jsDate \<Rightarrow> int" where
  "getDay t = (t div msPerDay + 4) mod 7"

text \<open>\<open>d.setDate(n)\<close>: day \<open>n\<close> counted from the first of the month \<open>d\<close> is in, the
  time within the day kept.\<close>

definition setDate :: "jsDate \<Rightarrow> int \<Rightarrow> jsDate" where
  "setDate t n =
     (daysFromCivil (getFullYear t) (getMonth t + 1) 1 + (n - 1)) * msPerDay + t mod msPerDay"

text \<open>The two conversions agree, so moving the day of the month by \<open>n\<close> moves the
  date by \<open>n\<close> days.\<close>

lemma daysFromCivil_day: "daysFromCivil y m d = daysFromCivil y m 1 + (d - 1)"
  by (simp add: daysFromCivil_def Let_def)

lemma div_bounds:
  fixes x k :: int
  assumes "0 < k"
  shows "k * (x div k) \<le> x \<and> x < k * (x div k) + k"
proof -
  have "x = k * (x div k) + x mod k" by simp
  moreover have "0 \<le> x mod k" "x mod k < k" using assms by simp_all
  ultimately show ?thesis by linarith
qed

lemma div_small:
  fixes a b k :: int
  assumes "0 \<le> b" "b < k"
  shows "(k * a + b) div k = a"
proof -
  have "k \<noteq> 0" using assms by auto
  then have "(k * a + b) div k = a + b div k" by simp
  also have "b div k = 0" using assms by simp
  finally show ?thesis by simp
qed

lemma civil_roundtrip:
  assumes civ: "civilFromDays z = (y, m, d)"
  shows "daysFromCivil y m d = z"
proof -
  define z' where "z' = z + 719468"
  define era where "era = z' div 146097"
  define doe where "doe = z' - era * 146097"
  define cent where "cent = min 3 (doe div 36524)"
  define r where "r = doe - 36524 * cent"
  define quad where "quad = r div 1461"
  define s where "s = r - 1461 * quad"
  define yr where "yr = min 3 (s div 365)"
  define doy where "doy = s - 365 * yr"
  define yoe where "yoe = 100 * cent + 4 * quad + yr"
  define mp where "mp = (5 * doy + 2) div 153"
  have doe: "0 \<le> doe" "doe < 146097"
    using div_bounds[of 146097 z'] unfolding doe_def era_def by simp_all
  have cent: "0 \<le> cent" "cent \<le> 3"
    using doe div_bounds[of 36524 doe] unfolding cent_def by simp_all
  have r: "0 \<le> r" "r \<le> 36524"
    using doe div_bounds[of 36524 doe] unfolding r_def cent_def min_def by (simp_all split: if_splits)
  have quad: "0 \<le> quad" "quad \<le> 24"
    using r div_bounds[of 1461 r] unfolding quad_def by simp_all
  have s: "0 \<le> s" "s \<le> 1460"
    using div_bounds[of 1461 r] unfolding s_def quad_def by simp_all
  have yr: "0 \<le> yr" "yr \<le> 3"
    using s div_bounds[of 365 s] unfolding yr_def by simp_all
  have doy: "0 \<le> doy" "doy \<le> 365"
    using s div_bounds[of 365 s] unfolding doy_def yr_def min_def by (simp_all split: if_splits)
  have mp: "0 \<le> mp" "mp \<le> 11"
    using doy div_bounds[of 153 "5 * doy + 2"] unfolding mp_def by simp_all
  have yoe4: "yoe div 4 = 25 * cent + quad"
  proof -
    have "yoe = 4 * (25 * cent + quad) + yr" by (simp add: yoe_def)
    then show ?thesis using yr div_small[of yr 4 "25 * cent + quad"] by simp
  qed
  have yoe100: "yoe div 100 = cent"
  proof -
    have "yoe = 100 * cent + (4 * quad + yr)" by (simp add: yoe_def)
    then show ?thesis using yr quad div_small[of "4 * quad + yr" 100 cent] by simp
  qed
  have yoe: "0 \<le> yoe" "yoe < 400"
    using cent quad yr unfolding yoe_def by simp_all
  have era': "(yoe + era * 400) div 400 = era"
    using yoe div_small[of yoe 400 era] by (simp add: add.commute mult.commute)
  have y: "y = (if (if mp < 10 then mp + 3 else mp - 9) \<le> 2 then yoe + era * 400 + 1 else yoe + era * 400)"
    and m: "m = (if mp < 10 then mp + 3 else mp - 9)"
    and d: "d = doy - (153 * mp + 2) div 5 + 1"
    using civ unfolding civilFromDays_def Let_def z'_def[symmetric] era_def[symmetric] doe_def[symmetric]
      cent_def[symmetric] r_def[symmetric] quad_def[symmetric] s_def[symmetric] yr_def[symmetric]
      doy_def[symmetric] yoe_def[symmetric] mp_def[symmetric]
    by auto
  have doe_eq: "yoe * 365 + yoe div 4 - yoe div 100 + doy = doe"
    unfolding yoe4 yoe100 by (simp add: yoe_def doy_def s_def r_def)
  show ?thesis
  proof (cases "mp < 10")
    case True
    then have "\<not> m \<le> 2" using mp m by simp
    moreover have "y = yoe + era * 400" using True mp y by simp
    moreover have "m - 3 = mp" using True m by simp
    ultimately show ?thesis
      unfolding daysFromCivil_def Let_def
      using era' doe_eq d by (simp add: doe_def z'_def)
  next
    case False
    then have "m \<le> 2" using mp m by simp
    moreover have "y - 1 = yoe + era * 400" using False mp y by simp
    moreover have "m + 9 = mp" using False m by simp
    ultimately show ?thesis
      unfolding daysFromCivil_def Let_def
      using era' doe_eq d by (simp add: doe_def z'_def)
  qed
qed

lemma setDate_getDate: "setDate t (getDate t + n) = t + n * msPerDay"
proof -
  obtain y m d where civ: "civilFromDays (t div msPerDay) = (y, m, d)"
    by (cases "civilFromDays (t div msPerDay)") auto
  have "daysFromCivil y m 1 + (d - 1) = t div msPerDay"
    using civil_roundtrip[OF civ] daysFromCivil_day[of y m d] by simp
  then have "setDate t (getDate t + n) = (t div msPerDay + n) * msPerDay + t mod msPerDay"
    by (simp add: setDate_def getDate_def getFullYear_def getMonth_def civ)
  then show ?thesis
    by (simp add: algebra_simps)
qed

text \<open>\<open>d.toISOString().split('T')[0]\<close>, the text \<open>YYYY-MM-DD\<close> of the UTC day, is
  represented by the number of that day (days since 1970-01-01): two dates have the same
  text exactly when they have the same day number.\<close>

definition isoDay :: "jsDate \<Rightarrow> int" where
  "isoDay t = t div msPerDay"

subsection \<open>Texts\<close>

text \<open>The decimal text of an integer, as a template literal writes it, and
  \<open>parts.join(', ')\<close>.\<close>

fun showNat :: "nat \<Rightarrow> string" where
  "showNat n =
     (if n < 10 then [char_of (48 + n)]
      else showNat (n div 10) @ [char_of (48 + n mod 10)])"

declare showNat.simps [simp del]

definition showInt :: "int \<Rightarrow> string" where
  "showInt i = (if i < 0 then ''-'' @ showNat (nat (- i)) else showNat (nat i))"

fun joinComma :: "string list \<Rightarrow> string" where
  "joinComma [] = []"
| "joinComma [x] = x"
| "joinComma (x # y # ys) = x @ '', '' @ joinComma (y # ys)"

subsection \<open>Map\<close>

text \<open>
  A \<open>Map\<close> is the list of its entries in insertion order. \<open>set\<close> of a key that is
  present replaces the value in place; \<open>new Map(entries)\<close> sets the entries one after the
  other; \<open>has\<close> and \<open>get\<close> look the key up.
\<close>

fun mapSet :: "('k \<times> 'v) list \<Rightarrow> 'k \<Rightarrow> 'v \<Rightarrow> ('k \<times> 'v) list" where
  "mapSet [] k v = [(k, v)]"
| "mapSet ((k', v') # m) k v = (if k' = k then (k, v) # m else (k', v') # mapSet m k v)"

definition newMap :: "('k \<times> 'v) list \<Rightarrow> ('k \<times> 'v) list" where
  "newMap entries = foldl (\<lambda>m (k, v). mapSet m k v) [] entries"

definition mapHas :: "('k \<times> 'v) list \<Rightarrow> 'k \<Rightarrow> bool" where
  "mapHas m k = (map_of m k \<noteq> None)"

definition mapGet :: "('k \<times> 'v) list \<Rightarrow> 'k \<Rightarrow> 'v option" where
  "mapGet m k = map_of m k"

section \<open>The data model\<close>

text \<open>A price point as the market-data service returns it. \<open>sma\<close> is the property that
  \<open>_calculateSMA\<close> adds to the object; \<open>None\<close> is its absence. The field \<open>open\<close> is
  named \<open>openPrice\<close>, since \<open>open\<close> is a keyword of the theory language.\<close>

record pricePoint =
  date :: jsDate
  openPrice :: real
  high :: real
  low :: real
  close :: real
  volume :: real
  sma :: "real option"

section \<open>event-engines.js: BaseEventEngine\<close>

record engine =
  name :: string
  isHealthy :: bool
  lastError :: "string option"
  successCount :: nat
  errorCount :: nat

text \<open>The engine object as the constructor leaves it.\<close>

definition newEngine :: "string \<Rightarrow> engine" where
  "newEngine nm =
     \<lparr>name = nm, isHealthy = True, lastError = None, successCount = 0, errorCount = 0\<rparr>"

text \<open>The two shapes \<open>safeExecute\<close> returns: \<open>{success: true, data}\<close> and
  \<open>{success: false, error, fallback}\<close>.\<close>

datatype 'a execResult =
    Success 'a
  | Failure string string

definition getFallbackMessage :: "engine \<Rightarrow> string" where
  "getFallbackMessage eng =
     name eng @ '' engine is temporarily unavailable. Please try again later.''"

text \<open>
  \<open>safeExecute(analysisFunction, ...args)\<close>. The engine object is passed in and returned
  updated; the awaited analysis function is a function from its arguments to a result or
  a throw (a rejected promise is a throw at the \<open>await\<close>). Writing to the console has no
  effect on the result and is left out.
\<close>

definition safeExecute ::
  "engine \<Rightarrow> ('args \<Rightarrow> jsError + 'a) \<Rightarrow> 'args \<Rightarrow> jsError + ('a execResult \<times> engine)" where
  "safeExecute eng analysisFunction args =
     tryCatch
       (case analysisFunction args of
          Inl e \<Rightarrow> Inl e
        | Inr result \<Rightarrow>
            Inr (Success result,
                 eng\<lparr>successCount := successCount eng + 1, isHealthy := True, lastError := None\<rparr>))
       (\<lambda>error.
          Inr (Failure (name eng @ '' analysis unavailable: '' @ message error)
                       (getFallbackMessage eng),
               eng\<lparr>errorCount := errorCount eng + 1, lastError := Some (message error),
                   isHealthy := False\<rparr>))"

section \<open>event-engines.js: MomentumEngine\<close>

text \<open>
  The price points of a series are objects, and \<open>_calculateSMA\<close> writes to them. So the
  objects live in a store, from references to objects, and an array of price points is a
  list of references. \<open>sma_period\<close> and \<open>days\<close> are natural numbers here.
\<close>

type_synonym ref = nat

type_synonym store = "ref \<Rightarrow> pricePoint"

text \<open>The inner loop of \<open>_calculateSMA\<close>: \<open>sum\<close> of \<open>result[j].close\<close> for
  \<open>j = i - period + 1, ..., i\<close>, divided by \<open>period\<close>. It is only called with
  \<open>period - 1 \<le> i\<close>.\<close>

definition smaAt :: "store \<Rightarrow> ref list \<Rightarrow> nat \<Rightarrow> nat \<Rightarrow> real" where
  "smaAt h result period i =
     sum_list (map (\<lambda>j. close (h (result ! j))) [i + 1 - period ..< i + 1]) / real period"

text \<open>The outer loop of \<open>_calculateSMA\<close>, from index \<open>i\<close> on:
  \<open>result[i].sma = sum / period\<close> writes to the object that \<open>result[i]\<close> refers to.\<close>

function calculateSMA_loop :: "ref list \<Rightarrow> nat \<Rightarrow> nat \<Rightarrow> store \<Rightarrow> store" where
  "calculateSMA_loop result period i h =
     (if i < length result
      then calculateSMA_loop result period (i + 1)
             (h(result ! i := (h (result ! i))\<lparr>sma := Some (smaAt h result period i)\<rparr>))
      else h)"
  by pat_completeness auto
termination
  by (relation "measure (\<lambda>(result, period, i, h). length result - i)") auto

declare calculateSMA_loop.simps [simp del]

text \<open>
  \<open>_calculateSMA(data, period)\<close>. \<open>[...data]\<close> is a new array of the same references.
  With \<open>period = 0\<close> the loop starts at \<open>i = -1\<close>, and the assignment to
  \<open>result[-1].sma\<close> throws a TypeError before anything is written.
\<close>

definition calculateSMA :: "store \<Rightarrow> ref list \<Rightarrow> nat \<Rightarrow> jsError + (ref list \<times> store)" where
  "calculateSMA h data period =
     (let result = data
      in if period = 0 then Inl (TypeError ''Cannot set properties of undefined (setting sma)'')
         else Inr (result, calculateSMA_loop result period (period - 1) h))"

record momentumParams =
  sma_period :: nat
  days :: nat
  momentum_type :: string
  threshold :: real

text \<open>A match of the momentum engine. \<open>extreme\<close> is \<open>maxDrawdown\<close> of a bullish match
  and \<open>maxRally\<close> of a bearish one; \<open>daysHeld\<close> is \<open>daysAboveSMA\<close> or
  \<open>daysBelowSMA\<close>.\<close>

record momentumMatch =
  matchDate :: jsDate
  startPrice :: real
  endPrice :: real
  extreme :: real
  periodReturn :: real
  daysHeld :: nat

record momentumSummary =
  total_matches :: nat
  summary_momentum_type :: string
  avg_return :: real

record momentumResult =
  matches :: "momentumMatch list"
  summary :: momentumSummary

text \<open>
  The bullish inner loop over the window \<open>j = i, ..., i + days - 1\<close>, given as the list
  of its points: a close at or below the SMA ends the loop with \<open>isValidPeriod = false\<close>;
  otherwise the running high and the worst drawdown from it are updated. The result is
  \<open>(isValidPeriod, extremeValue)\<close>. A comparison with a missing \<open>sma\<close> is false.
\<close>

fun bullishScan :: "pricePoint list \<Rightarrow> real \<Rightarrow> real \<Rightarrow> bool \<times> real" where
  "bullishScan [] highestPrice extremeValue = (True, extremeValue)"
| "bullishScan (p # ps) highestPrice extremeValue =
     (if (case sma p of None \<Rightarrow> False | Some s \<Rightarrow> close p \<le> s) then (False, extremeValue)
      else
        (let highestPrice' = (if highestPrice < close p then close p else highestPrice);
             drawdown = ((close p - highestPrice') / highestPrice') * 100;
             extremeValue' = (if drawdown < extremeValue then drawdown else extremeValue)
         in bullishScan ps highestPrice' extremeValue'))"

fun bearishScan :: "pricePoint list \<Rightarrow> real \<Rightarrow> real \<Rightarrow> bool \<times> real" where
  "bearishScan [] lowestPrice extremeValue = (True, extremeValue)"
| "bearishScan (p # ps) lowestPrice extremeValue =
     (if (case sma p of None \<Rightarrow> False | Some s \<Rightarrow> s \<le> close p) then (False, extremeValue)
      else
        (let lowestPrice' = (if close p < lowestPrice then close p else lowestPrice);
             rally = ((close p - lowestPrice') / lowestPrice') * 100;
             extremeValue' = (if extremeValue < rally then rally else extremeValue)
         in bearishScan ps lowestPrice' extremeValue'))"

definition minGapDays :: real where
  "minGapDays = 30"

text \<open>\<open>(currentDate - lastMatchDate) / (1000 * 60 * 60 * 24)\<close>.\<close>

definition daysBetween :: "jsDate \<Rightarrow> jsDate \<Rightarrow> real" where
  "daysBetween lastMatchDate currentDate =
     real_of_int (currentDate - lastMatchDate) / (1000 * 60 * 60 * 24)"

text \<open>
  One iteration of the main loop of \<open>_analyzeMomentum\<close> at start index \<open>i\<close>, on the state
  \<open>(matches, lastMatchDate)\<close>; \<open>None\<close> is \<open>lastMatchDate = null\<close>. The loop only runs it
  with \<open>i + days < length\<close>.
\<close>

definition momentumBody ::
  "pricePoint list \<Rightarrow> nat \<Rightarrow> string \<Rightarrow> real \<Rightarrow> nat \<Rightarrow>
   momentumMatch list \<times> jsDate option \<Rightarrow> momentumMatch list \<times> jsDate option" where
  "momentumBody dataWithSMA ds mtype thr i st =
     (let currentDate = date (dataWithSMA ! (i + ds))
      in if (case snd st of None \<Rightarrow> False
             | Some lastMatchDate \<Rightarrow> daysBetween lastMatchDate currentDate < minGapDays)
         then st
         else
           (let startPrice = close (dataWithSMA ! i);
                window = take ds (drop i dataWithSMA);
                endClose = close (dataWithSMA ! (i + ds))
            in if mtype = ''bullish'' then
                 (let (isValidPeriod, extremeValue) = bullishScan window startPrice 0
                  in if isValidPeriod \<and> - \<bar>thr\<bar> \<le> extremeValue
                     then (fst st @
                             [\<lparr>matchDate = currentDate, startPrice = startPrice,
                               endPrice = endClose, extreme = extremeValue,
                               periodReturn = ((endClose / startPrice) - 1) * 100,
                               daysHeld = ds\<rparr>],
                           Some currentDate)
                     else st)
               else if mtype = ''bearish'' then
                 (let (isValidPeriod, extremeValue) = bearishScan window startPrice 0
                  in if isValidPeriod \<and> extremeValue \<le> \<bar>thr\<bar>
                     then (fst st @
                             [\<lparr>matchDate = currentDate, startPrice = startPrice,
                               endPrice = endClose, extreme = extremeValue,
                               periodReturn = ((endClose / startPrice) - 1) * 100,
                               daysHeld = ds\<rparr>],
                           Some currentDate)
                     else st)
               else st))"

function momentumLoop ::
  "pricePoint list \<Rightarrow> nat \<Rightarrow> string \<Rightarrow> real \<Rightarrow> nat \<Rightarrow>
   momentumMatch list \<times> jsDate option \<Rightarrow> momentumMatch list \<times> jsDate option" where
  "momentumLoop dataWithSMA ds mtype thr i st =
     (if i + ds < length dataWithSMA
      then momentumLoop dataWithSMA ds mtype thr (i + 1)
             (momentumBody dataWithSMA ds mtype thr i st)
      else st)"
  by pat_completeness auto
termination
  by (relation "measure (\<lambda>(dataWithSMA, ds, mtype, thr, i, st). length dataWithSMA - i)") auto

declare momentumLoop.simps [simp del]

text \<open>
  \<open>_analyzeMomentum(data, {sma_period, days, momentum_type, threshold})\<close>, returning its
  result and the store as the call leaves it. The loops read the objects after
  \<open>_calculateSMA\<close> has written to them. The \<open>criteria\<close> text of the summary is left out.
\<close>

definition analyzeMomentum ::
  "store \<Rightarrow> ref list \<Rightarrow> momentumParams \<Rightarrow> jsError + (momentumResult \<times> store)" where
  "analyzeMomentum h data params =
     (case calculateSMA h data (sma_period params) of
        Inl e \<Rightarrow> Inl e
      | Inr (refs, h') \<Rightarrow>
          (let dataWithSMA = map h' refs;
               ms = fst (momentumLoop dataWithSMA (days params) (momentum_type params)
                           (threshold params) (sma_period params) ([], None))
           in Inr (\<lparr>matches = ms,
                     summary = \<lparr>total_matches = length ms,
                                summary_momentum_type = momentum_type params,
                                avg_return = (if 0 < length ms
                                              then sum_list (map periodReturn ms) / real (length ms)
                                              else 0)\<rparr>\<rparr>,
                   h')))"

text \<open>\<open>MomentumEngine.analyze(data, parameters)\<close>: the analysis run through
  \<open>safeExecute\<close>, with the store as the call leaves it. A throw of \<open>_analyzeMomentum\<close>
  comes before its first write, so the store is then the one the call started with.\<close>

definition momentumAnalyze ::
  "engine \<Rightarrow> store \<Rightarrow> ref list \<Rightarrow> momentumParams \<Rightarrow>
   jsError + (momentumResult execResult \<times> engine \<times> store)" where
  "momentumAnalyze eng h data params =
     (case safeExecute eng (\<lambda>(h0, d, ps). analyzeMomentum h0 d ps) (h, data, params) of
        Inl e \<Rightarrow> Inl e
      | Inr (Success (res, h'), eng') \<Rightarrow> Inr (Success res, eng', h')
      | Inr (Failure err fallback, eng') \<Rightarrow> Inr (Failure err fallback, eng', h))"

section \<open>event-engines.js: VolatilityEngine\<close>

text \<open>An entry \<open>{date, a, b}\<close> of an aligned series.\<close>

record alignedEntry =
  entry_date :: jsDate
  entry_a :: pricePoint
  entry_b :: pricePoint

text \<open>
  \<open>_alignDataSeries(dataA, dataB)\<close>: the inner join of the two series on the text of the
  day, in the order of \<open>dataA\<close>, then sorted by date. \<open>Array.prototype.sort\<close> is stable,
  as \<open>sort_key\<close> is.
\<close>

definition alignDataSeries :: "pricePoint list \<Rightarrow> pricePoint list \<Rightarrow> alignedEntry list" where
  "alignDataSeries dataA dataB =
     (let dateMapA = newMap (map (\<lambda>item. (isoDay (date item), item)) dataA);
          dateMapB = newMap (map (\<lambda>item. (isoDay (date item), item)) dataB);
          aligned =
            concat (map (\<lambda>(dateStr, itemA).
                           case mapGet dateMapB dateStr of
                             None \<Rightarrow> []
                           | Some itemB \<Rightarrow>
                               [\<lparr>entry_date = date itemA, entry_a = itemA, entry_b = itemB\<rparr>])
                        dateMapA)
      in sort_key entry_date aligned)"

record volatilityParams =
  vol_ticker :: string
  vix_threshold :: real
  price_condition :: string
  price_threshold :: real

text \<open>The default values of the parameter pattern of \<open>_analyzeVolatility\<close>.\<close>

definition defaultVolatilityParams :: volatilityParams where
  "defaultVolatilityParams =
     \<lparr>vol_ticker = ''SPY'', vix_threshold = 25, price_condition = ''any'', price_threshold = 2\<rparr>"

text \<open>A match of the volatility engine; the text \<open>condition_met\<close> is left out.\<close>

record volatilityMatch =
  vol_date :: jsDate
  vix_level :: real
  price_change :: real
  price :: real

text \<open>
  The body of the loop of \<open>_analyzeVolatility\<close> at index \<open>i\<close> (the loop runs it for
  \<open>1 \<le> i < length\<close>). \<open>priceConditionMet\<close> starts as true and is changed by the first
  branch of the chain whose condition holds.
\<close>

definition volatilityPriceConditionMet ::
  "alignedEntry list \<Rightarrow> string \<Rightarrow> real \<Rightarrow> nat \<Rightarrow> bool" where
  "volatilityPriceConditionMet alignedData pc pt i =
     (let priceChange =
            ((close (entry_a (alignedData ! i)) - close (entry_a (alignedData ! (i - 1))))
               / close (entry_a (alignedData ! (i - 1)))) * 100
      in if pc = ''down'' \<and> - \<bar>pt\<bar> \<le> priceChange then False
         else if pc = ''up'' \<and> priceChange \<le> \<bar>pt\<bar> then False
         else if pc = ''gap_down'' \<and> - \<bar>pt\<bar> \<le> priceChange then
           (let gapDown =
                  ((openPrice (entry_a (alignedData ! i)) - close (entry_a (alignedData ! (i - 1))))
                     / close (entry_a (alignedData ! (i - 1)))) * 100
            in gapDown \<le> - \<bar>pt\<bar>)
         else True)"

definition volatilityBody ::
  "alignedEntry list \<Rightarrow> volatilityParams \<Rightarrow> volatilityMatch list \<Rightarrow> nat \<Rightarrow> volatilityMatch list" where
  "volatilityBody alignedData params ms i =
     (let vixLevel = close (entry_b (alignedData ! i));
          priceChange =
            ((close (entry_a (alignedData ! i)) - close (entry_a (alignedData ! (i - 1))))
               / close (entry_a (alignedData ! (i - 1)))) * 100;
          priceConditionMet =
            volatilityPriceConditionMet alignedData (price_condition params) (price_threshold params) i
      in if vix_threshold params \<le> vixLevel \<and> priceConditionMet
         then ms @ [\<lparr>vol_date = date (entry_a (alignedData ! i)), vix_level = vixLevel,
                      price_change = priceChange, price = close (entry_a (alignedData ! i))\<rparr>]
         else ms)"

definition volatilityMatches :: "alignedEntry list \<Rightarrow> volatilityParams \<Rightarrow> volatilityMatch list" where
  "volatilityMatches alignedData params =
     foldl (volatilityBody alignedData params) [] [1 ..< length alignedData]"

text \<open>
  \<open>_analyzeVolatility({ticker, vix_threshold, price_condition, price_threshold})\<close>. The
  method has one parameter, and its body reads the identifier \<open>data\<close>, which is neither a
  parameter nor declared in the module: \<open>dataBinding\<close> is what that identifier is bound to
  where the method runs, \<open>None\<close> when it is not bound, and then reading it throws a
  ReferenceError. \<open>vixFetch\<close> is the outcome of fetching the \<open>^VIX\<close> series. The result is
  the match list; the summary is left out.
\<close>

definition analyzeVolatility ::
  "(jsError + pricePoint list) \<Rightarrow> pricePoint list option \<Rightarrow> volatilityParams \<Rightarrow>
   jsError + volatilityMatch list" where
  "analyzeVolatility vixFetch dataBinding params =
     (case vixFetch of
        Inl e \<Rightarrow> Inl e
      | Inr vixData \<Rightarrow>
          (case dataBinding of
             None \<Rightarrow> Inl (ReferenceError ''data is not defined'')
           | Some priceData \<Rightarrow>
               Inr (volatilityMatches (alignDataSeries priceData vixData) params)))"

text \<open>
  \<open>VolatilityEngine.analyze(data, parameters)\<close> passes \<open>data\<close> and \<open>parameters\<close> to
  a method of one parameter: the series is what the parameter pattern is matched against,
  so all four parameters take their default values, and \<open>parameters\<close> is not read. In
  the module \<open>data\<close> is not bound.
\<close>

definition volatilityAnalyze ::
  "engine \<Rightarrow> (jsError + pricePoint list) \<Rightarrow> pricePoint list \<Rightarrow> volatilityParams \<Rightarrow>
   jsError + (volatilityMatch list execResult \<times> engine)" where
  "volatilityAnalyze eng vixFetch data parameters =
     safeExecute eng (\<lambda>(arg1, arg2). analyzeVolatility vixFetch None defaultVolatilityParams)
       (data, parameters)"

text \<open>Two aligned days for the examples: the price closes at 100, then opens at 100 and
  closes at 95 with the volatility index at 30.\<close>

definition flatOpenSeries :: "alignedEntry list" where
  "flatOpenSeries =
     [\<lparr>entry_date = 0,
        entry_a = \<lparr>date = 0, openPrice = 100, high = 100, low = 100, close = 100, volume = 0,
                   sma = None\<rparr>,
        entry_b = \<lparr>date = 0, openPrice = 20, high = 20, low = 20, close = 20, volume = 0,
                   sma = None\<rparr>\<rparr>,
      \<lparr>entry_date = msPerDay,
        entry_a = \<lparr>date = msPerDay, openPrice = 100, high = 100, low = 95, close = 95,
                   volume = 0, sma = None\<rparr>,
        entry_b = \<lparr>date = msPerDay, openPrice = 30, high = 30, low = 30, close = 30,
                   volume = 0, sma = None\<rparr>\<rparr>]"

definition gapDownParams :: volatilityParams where
  "gapDownParams =
     \<lparr>vol_ticker = ''SPY'', vix_threshold = 25, price_condition = ''gap_down'',
      price_threshold = 2\<rparr>"

section \<open>toy-barometer.js: TOYBarometerEngine\<close>

text \<open>
  The parameter object of \<open>analyze\<close>; \<open>None\<close> is a property that is absent. The class
  defines \<open>analyzeTOYPeriod\<close>, \<open>calculateTOYSummary\<close> and \<open>generateTOYInsight\<close> twice;
  the later definition of each is the one the class has, and the one modelled.
\<close>

record toyParameters =
  ticker :: "string option"
  first_year :: "int option"
  last_year :: "int option"
  toy_start :: "string option"
  toy_end :: "string option"
  toy_threshold :: "real option"
  forward_days :: "int list option"

subsection \<open>Validation\<close>

definition isDigit :: "char \<Rightarrow> bool" where
  "isDigit c = (c \<in> set ''0123456789'')"

text \<open>The regular expression \<open>/^\d{1,2}-\d{1,2}$/\<close>: one or two digits, a dash, one or
  two digits, and nothing else.\<close>

definition datePattern :: "string \<Rightarrow> bool" where
  "datePattern s =
     (let month = takeWhile isDigit s;
          rest = dropWhile isDigit s
      in (length month = 1 \<or> length month = 2) \<and>
         (case rest of
            [] \<Rightarrow> False
          | c # day \<Rightarrow> c = CHR ''-'' \<and> (length day = 1 \<or> length day = 2) \<and> list_all isDigit day))"

text \<open>\<open>parseInt\<close> of a text that starts with a digit: the number its leading digits
  spell. The engine applies it to the two parts of a text that \<open>datePattern\<close> accepts.\<close>

definition parseInt :: "string \<Rightarrow> int" where
  "parseInt s = foldl (\<lambda>n c. 10 * n + (int (of_char c) - 48)) 0 (takeWhile isDigit s)"

text \<open>\<open>const [month, day] = md.split('-').map(x => parseInt(x))\<close>.\<close>

definition splitMonthDay :: "string \<Rightarrow> int \<times> int" where
  "splitMonthDay md =
     (parseInt (takeWhile (\<lambda>c. c \<noteq> CHR ''-'') md),
      parseInt (drop 1 (dropWhile (\<lambda>c. c \<noteq> CHR ''-'') md)))"

definition validateTOYDates :: "string \<Rightarrow> string \<Rightarrow> string list" where
  "validateTOYDates toyStart toyEnd =
     (let errors =
            (if \<not> datePattern toyStart
             then [''TOY start date must be in MM-DD format (e.g., 11-19)''] else []) @
            (if \<not> datePattern toyEnd
             then [''TOY end date must be in MM-DD format (e.g., 01-19)''] else [])
      in if length errors = 0 then
           (let (startMonth, startDay) = splitMonthDay toyStart;
                (endMonth, endDay) = splitMonthDay toyEnd
            in errors @
               (if startMonth < 1 \<or> 12 < startMonth then [''Start month must be between 1-12''] else []) @
               (if endMonth < 1 \<or> 12 < endMonth then [''End month must be between 1-12''] else []) @
               (if startDay < 1 \<or> 31 < startDay then [''Start day must be between 1-31''] else []) @
               (if endDay < 1 \<or> 31 < endDay then [''End day must be between 1-31''] else []))
         else errors)"

text \<open>
  \<open>validateParameters(parameters)\<close>. A property is tested for truthiness before it is
  checked: a threshold or a year that is absent or 0, and a text that is absent or empty,
  is not checked. No method of the class and no other module calls this method.
\<close>

definition validateParameters :: "toyParameters \<Rightarrow> string list" where
  "validateParameters parameters =
     (if (case toy_threshold parameters of
            None \<Rightarrow> False
          | Some t \<Rightarrow> t \<noteq> 0 \<and> (t < 0 \<or> 20 < t))
      then [''Threshold should be between 0% and 20%''] else []) @
     (if (case (first_year parameters, last_year parameters) of
            (Some f, Some l) \<Rightarrow> f \<noteq> 0 \<and> l \<noteq> 0 \<and> l \<le> f
          | _ \<Rightarrow> False)
      then [''First year must be before last year''] else []) @
     (if (case toy_start parameters of
            None \<Rightarrow> False
          | Some s \<Rightarrow> s \<noteq> [] \<and> \<not> datePattern s)
      then [''TOY start date must be in MM-DD format''] else []) @
     (if (case toy_end parameters of
            None \<Rightarrow> False
          | Some s \<Rightarrow> s \<noteq> [] \<and> \<not> datePattern s)
      then [''TOY end date must be in MM-DD format''] else [])"

subsection \<open>The nearest trading day\<close>

text \<open>\<open>dataByDate\<close> maps the text of a day to \<open>{...item, index}\<close>: the price point and
  its index in the series.\<close>

type_synonym dateIndex = "(int \<times> pricePoint \<times> nat) list"

definition buildDataByDate :: "pricePoint list \<Rightarrow> dateIndex" where
  "buildDataByDate data =
     foldl (\<lambda>m (item, index). mapSet m (isoDay (date item)) (item, index)) []
       (zip data [0 ..< length data])"

definition maxSearchDays :: nat where
  "maxSearchDays = 10"

text \<open>
  The search loop of \<open>findNearestTradingDay\<close>, from step \<open>i\<close> on. \<open>searchDate\<close> is the
  one Date object of the loop: each step sets its day of the month to the target's day of
  the month plus (or minus) \<open>i\<close>, in the month the object is in by then.
\<close>

function searchLoop :: "jsDate \<Rightarrow> dateIndex \<Rightarrow> string \<Rightarrow> nat \<Rightarrow> jsDate \<Rightarrow> int option" where
  "searchLoop targetDate dataByDate direction i searchDate =
     (if i \<le> maxSearchDays then
        (let searchDate' =
               (if direction = ''after''
                then setDate searchDate (getDate targetDate + int i)
                else setDate searchDate (getDate targetDate - int i));
             searchStr = isoDay searchDate'
         in if mapHas dataByDate searchStr then Some searchStr
            else searchLoop targetDate dataByDate direction (i + 1) searchDate')
      else None)"
  by pat_completeness auto
termination
  by (relation "measure (\<lambda>(targetDate, dataByDate, direction, i, searchDate). maxSearchDays + 1 - i)")
    auto

declare searchLoop.simps [simp del]

text \<open>\<open>findNearestTradingDay(targetDate, dataByDate, direction)\<close>; \<open>None\<close> is
  \<open>null\<close>.\<close>

definition findNearestTradingDay :: "jsDate \<Rightarrow> dateIndex \<Rightarrow> string \<Rightarrow> int option" where
  "findNearestTradingDay targetDate dataByDate direction =
     (let targetStr = isoDay targetDate
      in if mapHas dataByDate targetStr then Some targetStr
         else searchLoop targetDate dataByDate direction 1 targetDate)"

subsection \<open>One year\<close>

datatype toySignal = Bullish | Bearish | Neutral

text \<open>The key of a forward return is \<open>label + '_return'\<close>; the label is a text of the
  table, or the number of days followed by \<open>D\<close>.\<close>

datatype dayLabel = Named string | DaysD int

definition labelMap :: "(int \<times> string) list" where
  "labelMap =
     [(1, ''1D''), (2, ''2D''), (3, ''3D''), (4, ''4D''), (5, ''1W''),
      (10, ''2W''), (15, ''3W''), (20, ''1M''), (21, ''1M''), (40, ''2M''),
      (42, ''2M''), (60, ''3M''), (63, ''3M''), (126, ''6M''), (252, ''12M'')]"

definition mapDaysToLabel :: "int \<Rightarrow> dayLabel" where
  "mapDaysToLabel ds = (case map_of labelMap ds of Some l \<Rightarrow> Named l | None \<Rightarrow> DaysD ds)"

text \<open>
  \<open>calculateForwardReturns(data, startIndex, forwardDays)\<close>: the object of the returns,
  as the list of its properties; \<open>None\<close> is the value \<open>null\<close>. A negative
  \<open>futureIndex\<close> is less than the length, and reading \<open>close\<close> of the missing element
  throws a TypeError.
\<close>

definition forwardReturnStep ::
  "pricePoint list \<Rightarrow> nat \<Rightarrow> jsError + (dayLabel \<times> real option) list \<Rightarrow> int \<Rightarrow>
   jsError + (dayLabel \<times> real option) list" where
  "forwardReturnStep data startIndex acc ds =
     (case acc of
        Inl e \<Rightarrow> Inl e
      | Inr returns \<Rightarrow>
          (let startPrice = close (data ! startIndex);
               futureIndex = int startIndex + ds
           in if futureIndex < int (length data) then
                (if futureIndex < 0
                 then Inl (TypeError ''Cannot read properties of undefined (reading close)'')
                 else
                   (let futurePrice = close (data ! nat futureIndex);
                        returnPct = ((futurePrice - startPrice) / startPrice) * 100
                    in Inr (mapSet returns (mapDaysToLabel ds) (Some returnPct))))
              else Inr (mapSet returns (mapDaysToLabel ds) None)))"

definition calculateForwardReturns ::
  "pricePoint list \<Rightarrow> nat \<Rightarrow> int list \<Rightarrow> jsError + (dayLabel \<times> real option) list" where
  "calculateForwardReturns data startIndex forwardDays =
     foldl (forwardReturnStep data startIndex) (Inr []) forwardDays"

text \<open>\<open>getTradingDaysBetween(startDate, endDate)\<close>: the loop counts the days that are not
  a Saturday or a Sunday, moving \<open>currentDate\<close> on by one day of the month at a time.\<close>

function tradingDaysLoop :: "jsDate \<Rightarrow> jsDate \<Rightarrow> nat \<Rightarrow> nat" where
  "tradingDaysLoop currentDate endDate tradingDays =
     (if currentDate \<le> endDate then
        tradingDaysLoop (setDate currentDate (getDate currentDate + 1)) endDate
          (if getDay currentDate \<noteq> 0 \<and> getDay currentDate \<noteq> 6 then tradingDays + 1
           else tradingDays)
      else tradingDays)"
  by pat_completeness auto
termination
  by (relation "measure (\<lambda>(currentDate, endDate, tradingDays). nat (endDate + 1 - currentDate))")
    (auto simp: setDate_getDate msPerDay_def)

declare tradingDaysLoop.simps [simp del]

definition getTradingDaysBetween :: "jsDate \<Rightarrow> jsDate \<Rightarrow> nat" where
  "getTradingDaysBetween startDate endDate = tradingDaysLoop startDate endDate 0"

record toyEvent =
  event_date :: jsDate
  event_year :: int
  toy_start_date :: jsDate
  toy_end_date :: jsDate
  toy_return :: real
  event_signal :: toySignal
  start_price :: real
  end_price :: real
  period_days :: nat
  event_forward :: "(dayLabel \<times> real option) list"

record toyPeriod =
  event :: toyEvent
  toyReturn :: real
  signal :: toySignal
  forwardReturns :: "(dayLabel \<times> real option) list"

text \<open>The nominal start and end of the window of a year: the end is in the next year
  when its month is before the start's month.\<close>

definition toyWindow :: "int \<Rightarrow> string \<Rightarrow> string \<Rightarrow> jsDate \<times> jsDate" where
  "toyWindow year toyStartMD toyEndMD =
     (let (startMonth, startDay) = splitMonthDay toyStartMD;
          (endMonth, endDay) = splitMonthDay toyEndMD;
          toyStartYear = year;
          toyEndYear = (if endMonth < startMonth then year + 1 else year);
          toyStart = newDate toyStartYear (startMonth - 1) startDay;
          toyEnd = newDate toyEndYear (endMonth - 1) endDay
      in (toyStart, toyEnd))"

text \<open>
  \<open>analyzeTOYPeriod(year, toyStartMD, toyEndMD, dataByDate, data, threshold,
  forwardDays)\<close>. It throws when a boundary has no trading day, and when the day found has
  no entry.
\<close>

definition analyzeTOYPeriod ::
  "int \<Rightarrow> string \<Rightarrow> string \<Rightarrow> dateIndex \<Rightarrow> pricePoint list \<Rightarrow> real \<Rightarrow> int list \<Rightarrow>
   jsError + toyPeriod" where
  "analyzeTOYPeriod year toyStartMD toyEndMD dataByDate data thr forwardDays =
     (let (toyStart, toyEnd) = toyWindow year toyStartMD toyEndMD
      in case (findNearestTradingDay toyStart dataByDate ''after'',
               findNearestTradingDay toyEnd dataByDate ''after'') of
           (Some startTradingDay, Some endTradingDay) \<Rightarrow>
             (case (mapGet dataByDate startTradingDay, mapGet dataByDate endTradingDay) of
                (Some (startData, startIndex), Some (endData, endIndex)) \<Rightarrow>
                  (let toyRet = ((close endData - close startData) / close startData) * 100;
                       sig = (if thr \<le> toyRet then Bullish
                              else if toyRet < 0 then Bearish
                              else Neutral)
                   in case calculateForwardReturns data endIndex forwardDays of
                        Inl e \<Rightarrow> Inl e
                      | Inr fwd \<Rightarrow>
                          Inr \<lparr>event =
                                 \<lparr>event_date = date endData, event_year = year,
                                  toy_start_date = date startData, toy_end_date = date endData,
                                  toy_return = toyRet, event_signal = sig,
                                  start_price = close startData, end_price = close endData,
                                  period_days = getTradingDaysBetween (date startData) (date endData),
                                  event_forward = fwd\<rparr>,
                               toyReturn = toyRet, signal = sig, forwardReturns = fwd\<rparr>)
              | _ \<Rightarrow> Inl (Error (''Missing price data for TOY period '' @ showInt year)))
         | _ \<Rightarrow> Inl (Error (''No trading days found for TOY period '' @ showInt year)))"

subsection \<open>All years\<close>

record toyCounts =
  bullish_periods :: nat
  bearish_periods :: nat
  neutral_periods :: nat

text \<open>\<open>calculateTOYSummary(toyPeriods, threshold)\<close>: the message when no period was
  analyzed, else the counts by signal. The rates, averages and the insight, which are
  texts made from the same periods, are left out.\<close>

definition calculateTOYSummary :: "toyPeriod list \<Rightarrow> real \<Rightarrow> string + toyCounts" where
  "calculateTOYSummary periods thr =
     (if length periods = 0 then Inl ''No TOY periods analyzed''
      else Inr \<lparr>bullish_periods = length (filter (\<lambda>p. thr \<le> toyReturn p) periods),
                bearish_periods = length (filter (\<lambda>p. toyReturn p < 0) periods),
                neutral_periods =
                  length (filter (\<lambda>p. 0 \<le> toyReturn p \<and> toyReturn p < thr) periods)\<rparr>)"

text \<open>The data of a successful analysis; \<open>metadata\<close> is left out.\<close>

record toyData =
  toy_matches :: "toyEvent list"
  total_periods :: nat
  toy_summary :: "string + toyCounts"
  toyPeriods :: "toyPeriod list"

text \<open>
  The body of the loop over the years, on the state \<open>(events, toyPeriods, warnings)\<close>:
  a throw of \<open>analyzeTOYPeriod\<close> is caught there and written to the console as a
  warning, kept here as the year and the message.
\<close>

definition toyYearStep ::
  "string \<Rightarrow> string \<Rightarrow> dateIndex \<Rightarrow> pricePoint list \<Rightarrow> real \<Rightarrow> int list \<Rightarrow>
   toyEvent list \<times> toyPeriod list \<times> (int \<times> string) list \<Rightarrow> int \<Rightarrow>
   toyEvent list \<times> toyPeriod list \<times> (int \<times> string) list" where
  "toyYearStep toyStartMD toyEndMD dataByDate data thr forwardDays st year =
     (case st of
        (events, periods, warnings) \<Rightarrow>
          (case analyzeTOYPeriod year toyStartMD toyEndMD dataByDate data thr forwardDays of
             Inr toyResult \<Rightarrow> (events @ [event toyResult], periods @ [toyResult], warnings)
           | Inl error \<Rightarrow> (events, periods, warnings @ [(year, message error)])))"

text \<open>The parameters of \<open>analyze\<close> after the destructuring with its default values;
  \<open>currentYear\<close> is \<open>new Date().getFullYear()\<close>.\<close>

record toyArguments =
  tickerArg :: string
  firstYearArg :: int
  lastYearArg :: int
  toyStartArg :: string
  toyEndArg :: string
  thresholdArg :: real
  forwardDaysArg :: "int list"

definition destructure :: "int \<Rightarrow> toyParameters \<Rightarrow> toyArguments" where
  "destructure currentYear parameters =
     \<lparr>tickerArg = (case ticker parameters of None \<Rightarrow> ''SPY'' | Some v \<Rightarrow> v),
      firstYearArg = (case first_year parameters of None \<Rightarrow> 2000 | Some v \<Rightarrow> v),
      lastYearArg = (case last_year parameters of None \<Rightarrow> currentYear | Some v \<Rightarrow> v),
      toyStartArg = (case toy_start parameters of None \<Rightarrow> ''11-19'' | Some v \<Rightarrow> v),
      toyEndArg = (case toy_end parameters of None \<Rightarrow> ''01-19'' | Some v \<Rightarrow> v),
      thresholdArg = (case toy_threshold parameters of None \<Rightarrow> 3 | Some v \<Rightarrow> v),
      forwardDaysArg = (case forward_days parameters of
                          None \<Rightarrow> [5, 10, 15, 20, 40, 63, 126, 252]
                        | Some v \<Rightarrow> v)\<rparr>"

text \<open>
  \<open>analyze(parameters)\<close>. \<open>getHistoricalData\<close> is the outcome of fetching the series of
  a ticker. The result is the returned object, the engine as the call leaves it, and the
  warnings written.
\<close>

definition toyAnalyze ::
  "engine \<Rightarrow> int \<Rightarrow> (string \<Rightarrow> jsError + pricePoint list) \<Rightarrow> toyParameters \<Rightarrow>
   jsError + (toyData execResult \<times> engine \<times> (int \<times> string) list)" where
  "toyAnalyze eng currentYear getHistoricalData parameters =
     tryCatch
       (let args = destructure currentYear parameters;
            dateErrors = validateTOYDates (toyStartArg args) (toyEndArg args)
        in if 0 < length dateErrors
           then Inl (Error (''Invalid TOY dates: '' @ joinComma dateErrors))
           else
             (case getHistoricalData (tickerArg args) of
                Inl e \<Rightarrow> Inl e
              | Inr data \<Rightarrow>
                  if length data = 0
                  then Inl (Error (''No data available for '' @ tickerArg args))
                  else
                    (let dataByDate = buildDataByDate data;
                         (events, periods, warnings) =
                           foldl (toyYearStep (toyStartArg args) (toyEndArg args) dataByDate data
                                    (thresholdArg args) (forwardDaysArg args))
                             ([], [], []) [firstYearArg args .. lastYearArg args];
                         summary = calculateTOYSummary periods (thresholdArg args)
                     in Inr (Success \<lparr>toy_matches = events, total_periods = length events,
                                       toy_summary = summary, toyPeriods = periods\<rparr>,
                             eng\<lparr>successCount := successCount eng + 1, isHealthy := True,
                                 lastError := None\<rparr>,
                             warnings))))
       (\<lambda>error.
          Inr (Failure (''TOY analysis failed: '' @ message error)
                       ''TOY engine is temporarily unavailable'',
               eng\<lparr>errorCount := errorCount eng + 1, lastError := Some (message error),
                   isHealthy := False\<rparr>,
               []))"

text \<open>Price points for the examples: a point of a given day and close.\<close>

definition pointAt :: "int \<Rightarrow> int \<Rightarrow> int \<Rightarrow> real \<Rightarrow> pricePoint" where
  "pointAt y m d c =
     \<lparr>date = newDate y (m - 1) d, openPrice = c, high = c, low = c, close = c, volume = 0,
      sma = None\<rparr>"

text \<open>The series and the parameters of the examples of the TOY engine.\<close>

definition turnOfYearSeries :: "pricePoint list" where
  "turnOfYearSeries = [pointAt 2020 11 19 100, pointAt 2021 1 19 110]"

definition threeYearParameters :: toyParameters where
  "threeYearParameters =
     \<lparr>ticker = Some ''SPY'', first_year = Some 2020, last_year = Some 2022, toy_start = None,
      toy_end = None, toy_threshold = None, forward_days = Some [1, 5]\<rparr>"

definition outOfRangeParameters :: toyParameters where
  "outOfRangeParameters =
     \<lparr>ticker = Some ''SPY'', first_year = Some 2020, last_year = Some 2020, toy_start = None,
      toy_end = None, toy_threshold = Some 25, forward_days = Some [1, 5]\<rparr>"

definition newYearSeries :: "pricePoint list" where
  "newYearSeries = [pointAt 2024 1 2 100, pointAt 2024 2 2 100]"

section \<open>forward-returns.js: ExtendedForwardReturnsCalculator\<close>

text \<open>
  A match is read for its date; \<open>match_details\<close> is the text that
  \<open>formatEventDetails\<close> makes of it. A row of the results keeps the text of the day, the
  price and, for each timeframe, the return, \<open>None\<close> for \<open>'N/A'\<close>; the numbers stand for
  the texts the code formats them to.
\<close>

record forwardMatch =
  match_date :: jsDate
  match_details :: string

record resultRow =
  row_date :: int
  row_price :: real
  row_details :: string
  row_returns :: "(string \<times> real option) list"

record performance =
  returns :: "real list"
  winCount :: nat
  totalCount :: nat

type_synonym performanceData = "(string \<times> performance) list"

record performanceRow =
  timeframe :: string
  samples :: nat
  avgReturnRaw :: "real option"
  winRateRaw :: "real option"
  best :: "real option"
  worst :: "real option"
  volatility :: "real option"
  returnVolRatio :: "real option"

record performanceTable =
  headers :: "string list"
  rows :: "performanceRow list"
  table_message :: "string option"

text \<open>Of the summary, \<open>'Total Matches'\<close> and \<open>'Message'\<close>; the texts per timeframe and
  the insight, made from the same performance data as the table, are left out.\<close>

record calcSummary =
  totalMatches :: nat
  summary_message :: "string option"

record calcResult =
  results :: "resultRow list"
  calc_summary :: calcSummary
  performanceTable :: performanceTable

definition tableHeaders :: "string list" where
  "tableHeaders =
     [''Timeframe'', ''Avg Return'', ''Win Rate'', ''Best'', ''Worst'', ''Volatility'', ''Samples'']"

definition getEmptyPerformanceTable :: performanceTable where
  "getEmptyPerformanceTable =
     \<lparr>headers = tableHeaders, rows = [],
      table_message = Some ''No historical matches found for analysis''\<rparr>"

definition defaultPeriods :: "(string \<times> int) list" where
  "defaultPeriods =
     [(''1D'', 1), (''2D'', 2), (''3D'', 3), (''4D'', 4), (''1W'', 5), (''2W'', 10),
      (''1M'', 21), (''2M'', 42), (''3M'', 63), (''6M'', 126), (''12M'', 252)]"

text \<open>\<open>performanceData[label]\<close> after a return was pushed to it.\<close>

definition pushReturn :: "performanceData \<Rightarrow> string \<Rightarrow> real \<Rightarrow> performanceData" where
  "pushReturn pd label returnPct =
     map (\<lambda>(l, d).
            if l = label
            then (l, d\<lparr>returns := returns d @ [returnPct], totalCount := totalCount d + 1,
                       winCount := (if 0 < returnPct then winCount d + 1 else winCount d)\<rparr>)
            else (l, d))
         pd"

text \<open>
  The inner loop of \<open>calculate\<close> over the timeframes, for the match found at \<open>index\<close>,
  on the returns of the row and the performance data. A negative \<open>futureIndex\<close> is less
  than the length, and reading \<open>close\<close> of the missing element throws a TypeError.
\<close>

definition periodStep ::
  "pricePoint list \<Rightarrow> pricePoint \<Rightarrow> nat \<Rightarrow>
   jsError + ((string \<times> real option) list \<times> performanceData) \<Rightarrow> string \<times> int \<Rightarrow>
   jsError + ((string \<times> real option) list \<times> performanceData)" where
  "periodStep data currentData index acc entry =
     (case acc of
        Inl e \<Rightarrow> Inl e
      | Inr (rowReturns, pd) \<Rightarrow>
          (case entry of
             (label, ds) \<Rightarrow>
               (let futureIndex = int index + ds
                in if futureIndex < int (length data) then
                     (if futureIndex < 0
                      then Inl (TypeError ''Cannot read properties of undefined (reading close)'')
                      else
                        (let futurePrice = close (data ! nat futureIndex);
                             returnPct =
                               ((futurePrice - close currentData) / close currentData) * 100
                         in Inr (mapSet rowReturns label (Some returnPct),
                                 pushReturn pd label returnPct)))
                   else Inr (mapSet rowReturns label None, pd))))"

text \<open>The loop of \<open>calculate\<close> over the matches, on the rows, the performance data and
  the warnings (the days of the matches that are not in the series).\<close>

definition matchStep ::
  "pricePoint list \<Rightarrow> dateIndex \<Rightarrow> (string \<times> int) list \<Rightarrow>
   jsError + (resultRow list \<times> performanceData \<times> int list) \<Rightarrow> forwardMatch \<Rightarrow>
   jsError + (resultRow list \<times> performanceData \<times> int list)" where
  "matchStep data dataByDate periods acc m =
     (case acc of
        Inl e \<Rightarrow> Inl e
      | Inr (rs, pd, warnings) \<Rightarrow>
          (let matchDateStr = isoDay (match_date m)
           in case mapGet dataByDate matchDateStr of
                None \<Rightarrow> Inr (rs, pd, warnings @ [matchDateStr])
              | Some (currentData, index) \<Rightarrow>
                  (case foldl (periodStep data currentData index) (Inr ([], pd)) periods of
                     Inl e \<Rightarrow> Inl e
                   | Inr (rowReturns, pd') \<Rightarrow>
                       Inr (rs @ [\<lparr>row_date = matchDateStr, row_price = close currentData,
                                    row_details = match_details m, row_returns = rowReturns\<rparr>],
                            pd', warnings))))"

definition processMatches ::
  "pricePoint list \<Rightarrow> (string \<times> int) list \<Rightarrow> forwardMatch list \<Rightarrow>
   jsError + (resultRow list \<times> performanceData \<times> int list)" where
  "processMatches data periods ms =
     (let performanceData =
            foldl (\<lambda>pd period. mapSet pd period \<lparr>returns = [], winCount = 0, totalCount = 0\<rparr>)
              [] (map fst periods);
          dataByDate = buildDataByDate data
      in foldl (matchStep data dataByDate periods) (Inr ([], performanceData, [])) ms)"

text \<open>
  The row that \<open>generatePerformanceTable\<close> makes of an entry of the performance data.
  A timeframe without returns gets a row without \<open>returnVolRatio\<close>.
\<close>

definition performanceRowOf :: "string \<times> performance \<Rightarrow> performanceRow" where
  "performanceRowOf entry =
     (case entry of
        (period, d) \<Rightarrow>
          if 0 < length (returns d) then
            (let avgReturn =
                   foldl (\<lambda>sum ret. sum + ret) 0 (returns d) / real (length (returns d));
                 winRate = (real (winCount d) / real (totalCount d)) * 100;
                 maxReturn = foldl max (hd (returns d)) (tl (returns d));
                 minReturn = foldl min (hd (returns d)) (tl (returns d));
                 variance =
                   foldl (\<lambda>sum ret. sum + (ret - avgReturn) ^ 2) 0 (returns d)
                     / real (length (returns d));
                 stdDev = sqrt variance
             in \<lparr>timeframe = period, samples = totalCount d, avgReturnRaw = Some avgReturn,
                 winRateRaw = Some winRate, best = Some maxReturn, worst = Some minReturn,
                 volatility = Some stdDev,
                 returnVolRatio = Some (if 0 < stdDev then avgReturn / stdDev else 0)\<rparr>)
          else
            \<lparr>timeframe = period, samples = 0, avgReturnRaw = None, winRateRaw = None,
             best = None, worst = None, volatility = None, returnVolRatio = None\<rparr>)"

text \<open>\<open>row.returnVolRatio || 0\<close>, the key of the sort.\<close>

definition ratioKey :: "performanceRow \<Rightarrow> real" where
  "ratioKey row = (case returnVolRatio row of None \<Rightarrow> 0 | Some x \<Rightarrow> x)"

text \<open>
  \<open>generatePerformanceTable(performanceData)\<close>. The comparator
  \<open>(a, b) => (b.returnVolRatio || 0) - (a.returnVolRatio || 0)\<close> puts the row with the
  greater key first, and \<open>Array.prototype.sort\<close> is stable: it is the stable sort by
  the negated key.
\<close>

definition generatePerformanceTable :: "performanceData \<Rightarrow> performanceTable" where
  "generatePerformanceTable pd =
     \<lparr>headers = tableHeaders,
      rows = sort_key (\<lambda>row. - ratioKey row) (map performanceRowOf pd),
      table_message = None\<rparr>"

text \<open>
  \<open>calculate(data, matches, customPeriods)\<close>. \<open>None\<close> is a \<open>matches\<close> or a
  \<open>customPeriods\<close> that is \<open>null\<close> or \<open>undefined\<close>; the timeframes are the entries of
  the object, in its order. \<open>metadata\<close> is left out.
\<close>

definition calculate ::
  "pricePoint list \<Rightarrow> forwardMatch list option \<Rightarrow> (string \<times> int) list option \<Rightarrow>
   jsError + calcResult" where
  "calculate data matchesArg customPeriods =
     (if (case matchesArg of None \<Rightarrow> True | Some ms \<Rightarrow> length ms = 0)
      then Inr \<lparr>results = [],
                calc_summary =
                  \<lparr>totalMatches = 0,
                   summary_message = Some ''No historical instances found for this event pattern''\<rparr>,
                performanceTable = getEmptyPerformanceTable\<rparr>
      else
        (let ms = (case matchesArg of None \<Rightarrow> [] | Some v \<Rightarrow> v);
             periods = (case customPeriods of None \<Rightarrow> defaultPeriods | Some v \<Rightarrow> v)
         in case processMatches data periods ms of
              Inl e \<Rightarrow> Inl e
            | Inr (rs, performanceData, warnings) \<Rightarrow>
                Inr \<lparr>results = rs,
                     calc_summary = \<lparr>totalMatches = length ms, summary_message = None\<rparr>,
                     performanceTable = generatePerformanceTable performanceData\<rparr>))"




section \<open>contextual-filters.js: ContextualFilterService\<close>

text \<open>
  The dates to filter are texts; \<open>parseDate\<close> stands for \<open>new Date(dateStr)\<close>, with
  \<open>None\<close> for an invalid date, which compares false with every date. The three tables of
  dates are kept in a cache for 24 hours; a cached table is the table an earlier call
  computed from the same arguments, so the cache is left out.
\<close>

record additionalFilters =
  day_filter :: "string list option"
  month_filter :: "int list option"

text \<open>The start and the end of each earnings season of \<open>getEarningsSeasonDates\<close>.\<close>

definition getEarningsSeasonDates :: "int \<Rightarrow> int \<Rightarrow> (jsDate \<times> jsDate) list" where
  "getEarningsSeasonDates startYear endYear =
     concat (map (\<lambda>year.
                    [(newDate year 3 15, newDate year 4 15),
                     (newDate year 6 15, newDate year 7 15),
                     (newDate year 9 15, newDate year 10 15)] @
                    (if year < endYear
                     then [(newDate (year + 1) 0 15, newDate (year + 1) 1 15)]
                     else []))
                 [startYear .. endYear])"

definition isEarningsSeason :: "jsDate option \<Rightarrow> bool" where
  "isEarningsSeason dateArg =
     (case dateArg of
        None \<Rightarrow> False
      | Some t \<Rightarrow>
          list_ex (\<lambda>(seasonStart, seasonEnd). seasonStart \<le> t \<and> t \<le> seasonEnd)
            (getEarningsSeasonDates 2020 2024))"

text \<open>The table of \<open>getFedMeetingDates\<close>: year, month index and day of each meeting.\<close>

definition fedMeetings :: "(int \<times> int \<times> int) list" where
  "fedMeetings =
     [(2020, 0, 29), (2020, 2, 15), (2020, 2, 3), (2020, 3, 29), (2020, 5, 10), (2020, 6, 29),
      (2020, 8, 16), (2020, 10, 5), (2020, 11, 16),
      (2021, 0, 27), (2021, 2, 17), (2021, 3, 28), (2021, 5, 16), (2021, 6, 28), (2021, 8, 22),
      (2021, 10, 3), (2021, 11, 15),
      (2022, 0, 26), (2022, 2, 16), (2022, 4, 4), (2022, 5, 15), (2022, 6, 27), (2022, 8, 21),
      (2022, 10, 2), (2022, 11, 14),
      (2023, 1, 1), (2023, 2, 22), (2023, 4, 3), (2023, 5, 14), (2023, 6, 26), (2023, 8, 20),
      (2023, 10, 1), (2023, 11, 13),
      (2024, 0, 31), (2024, 2, 20), (2024, 4, 1), (2024, 5, 12), (2024, 6, 31), (2024, 8, 18),
      (2024, 10, 7), (2024, 11, 18)]"

definition getFedMeetingDates :: "int \<Rightarrow> int \<Rightarrow> jsDate list" where
  "getFedMeetingDates startYear endYear =
     map (\<lambda>(y, m, d). newDate y m d)
       (filter (\<lambda>(y, m, d). startYear \<le> y \<and> y \<le> endYear) fedMeetings)"

definition isFedMeetingWeek :: "jsDate option \<Rightarrow> bool" where
  "isFedMeetingWeek dateArg =
     (case dateArg of
        None \<Rightarrow> False
      | Some t \<Rightarrow>
          list_ex (\<lambda>meeting.
                     (let weekStart = setDate meeting (getDate meeting - 3);
                          weekEnd = setDate meeting (getDate meeting + 3)
                      in weekStart \<le> t \<and> t \<le> weekEnd))
            (getFedMeetingDates 2020 2024))"

definition getThirdFriday :: "int \<Rightarrow> int \<Rightarrow> jsDate" where
  "getThirdFriday year month =
     (let firstDay = newDate year month 1;
          firstFriday = newDate year month (1 + (5 - getDay firstDay + 7) mod 7);
          thirdFriday = setDate firstFriday (getDate firstFriday + 14)
      in thirdFriday)"

text \<open>The dates of \<open>getOptionsExpirationDates\<close>; the third Friday of a quarter's last
  month is in the list twice.\<close>

definition getOptionsExpirationDates :: "int \<Rightarrow> int \<Rightarrow> jsDate list" where
  "getOptionsExpirationDates startYear endYear =
     concat (map (\<lambda>year.
                    concat (map (\<lambda>month.
                                   (let thirdFriday = getThirdFriday year month
                                    in [thirdFriday] @
                                       (if month \<in> set [2, 5, 8, 11] then [thirdFriday] else [])))
                                [0 .. 11]))
                 [startYear .. endYear])"

definition isOptionsExpirationWeek :: "jsDate option \<Rightarrow> bool" where
  "isOptionsExpirationWeek dateArg =
     (case dateArg of
        None \<Rightarrow> False
      | Some t \<Rightarrow>
          list_ex (\<lambda>expiration.
                     (let weekStart = setDate expiration (getDate expiration - 4);
                          weekEnd = setDate expiration (getDate expiration + 2)
                      in weekStart \<le> t \<and> t \<le> weekEnd))
            (getOptionsExpirationDates 2020 2024))"

text \<open>\<open>toUpperCase\<close> on the letters a to z.\<close>

definition toUpperCase :: "string \<Rightarrow> string" where
  "toUpperCase s =
     map (\<lambda>c. if 97 \<le> (of_char c :: nat) \<and> (of_char c :: nat) \<le> 122
               then char_of ((of_char c :: nat) - 32) else c) s"

definition dayMap :: "(string \<times> int) list" where
  "dayMap =
     [(''SUNDAY'', 0), (''MONDAY'', 1), (''TUESDAY'', 2), (''WEDNESDAY'', 3),
      (''THURSDAY'', 4), (''FRIDAY'', 5), (''SATURDAY'', 6)]"

text \<open>\<open>filterByDayOfWeek(dates, targetDays)\<close>; a name that is not in \<open>dayMap\<close> maps to
  \<open>undefined\<close>, here \<open>None\<close>.\<close>

definition filterByDayOfWeek ::
  "(string \<Rightarrow> jsDate option) \<Rightarrow> string list \<Rightarrow> string list \<Rightarrow> string list" where
  "filterByDayOfWeek parseDate dates targetDays =
     (let targetDayNumbers = map (\<lambda>day. map_of dayMap (toUpperCase day)) targetDays
      in filter (\<lambda>dateStr.
                   case parseDate dateStr of
                     None \<Rightarrow> False
                   | Some t \<Rightarrow> Some (getDay t) \<in> set targetDayNumbers)
           dates)"

text \<open>One step of the loop of \<open>applyContextFilters\<close>: the \<open>switch\<close> on the filter.\<close>

definition applyFilter ::
  "(string \<Rightarrow> jsDate option) \<Rightarrow> additionalFilters \<Rightarrow> string list \<Rightarrow> string \<Rightarrow> string list" where
  "applyFilter parseDate additional filteredDates flt =
     (if flt = ''EARNINGS_SEASON'' then
        filter (\<lambda>dateStr. isEarningsSeason (parseDate dateStr)) filteredDates
      else if flt = ''FED_MEETING'' then
        filter (\<lambda>dateStr. isFedMeetingWeek (parseDate dateStr)) filteredDates
      else if flt = ''OPTIONS_EXPIRATION'' then
        filter (\<lambda>dateStr. isOptionsExpirationWeek (parseDate dateStr)) filteredDates
      else if flt = ''DAY_OF_WEEK'' then
        (case day_filter additional of
           None \<Rightarrow> filteredDates
         | Some targetDays \<Rightarrow> filterByDayOfWeek parseDate filteredDates targetDays)
      else if flt = ''MONTH_OF_YEAR'' then
        (case month_filter additional of
           None \<Rightarrow> filteredDates
         | Some months \<Rightarrow>
             filter (\<lambda>dateStr.
                       case parseDate dateStr of
                         None \<Rightarrow> False
                       | Some t \<Rightarrow> getMonth t + 1 \<in> set months)
               filteredDates)
      else filteredDates)"

definition applyContextFilters ::
  "(string \<Rightarrow> jsDate option) \<Rightarrow> string list \<Rightarrow> string list \<Rightarrow> additionalFilters \<Rightarrow> string list" where
  "applyContextFilters parseDate dates filters additional =
     foldl (applyFilter parseDate additional) dates filters"

text \<open>A parser of three texts for the examples.\<close>

definition parseThree :: "string \<Rightarrow> jsDate option" where
  "parseThree s =
     (if s = ''2024-01-31'' then Some (newDate 2024 0 31)
      else if s = ''2024-02-15'' then Some (newDate 2024 1 15)
      else if s = ''2024-03-22'' then Some (newDate 2024 2 22)
      else None)"

definition fourDates :: "string list" where
  "fourDates = [''2024-01-31'', ''junk'', ''2024-02-15'', ''2024-03-22'']"

definition noAdditional :: additionalFilters where
  "noAdditional = \<lparr>day_filter = None, month_filter = None\<rparr>"

section \<open>The loop invariant and the series of the momentum examples\<close>

text \<open>The loop invariant of \<open>_analyzeMomentum\<close>: each recorded match ends at least
  \<open>minGapDays\<close> after every earlier one, and none ends after \<open>lastMatchDate\<close>.\<close>

definition gapOK :: "momentumMatch \<Rightarrow> momentumMatch \<Rightarrow> bool" where
  "gapOK x y = (minGapDays \<le> daysBetween (matchDate x) (matchDate y))"

definition momentumInv :: "momentumMatch list \<times> jsDate option \<Rightarrow> bool" where
  "momentumInv st =
     (sorted_wrt gapOK (fst st) \<and>
      list_all (\<lambda>m. case snd st of None \<Rightarrow> False | Some l \<Rightarrow> matchDate m \<le> l) (fst st))"

text \<open>A rising series for the examples: point \<open>r\<close> closes at \<open>r + 1\<close> on day \<open>40 r\<close>.\<close>

definition risingStore :: store where
  "risingStore r =
     \<lparr>date = int r * 40 * msPerDay, openPrice = real r + 1, high = real r + 1,
      low = real r + 1, close = real r + 1, volume = 0, sma = None\<rparr>"

definition risingParams :: momentumParams where
  "risingParams = \<lparr>sma_period = 2, days = 1, momentum_type = ''bullish'', threshold = 1.2\<rparr>"

section \<open>Verified properties\<close>

text \<open>
  C1. Whatever the analysis function does on its arguments, \<open>safeExecute\<close> returns and does
  not throw. When the function throws, the result is the structured failure (error text
  and fallback text) and \<open>errorCount\<close> grows by one while \<open>successCount\<close> is unchanged; when
  it returns, the result is the success carrying its data and \<open>successCount\<close> grows by one
  while \<open>errorCount\<close> is unchanged. So exactly one counter changes per call and neither
  decreases.
\<close>

theorem safeExecute_fault_isolation:
  fixes analysisFunction :: "'args \<Rightarrow> jsError + 'a"
  shows "\<exists>res eng'.
      safeExecute eng analysisFunction args = Inr (res, eng')
    \<and> (case analysisFunction args of
         Inl e \<Rightarrow>
           res = Failure (name eng @ '' analysis unavailable: '' @ message e)
                         (getFallbackMessage eng)
         \<and> errorCount eng' = errorCount eng + 1
         \<and> successCount eng' = successCount eng
       | Inr d \<Rightarrow>
           res = Success d
         \<and> successCount eng' = successCount eng + 1
         \<and> errorCount eng' = errorCount eng)
    \<and> successCount eng \<le> successCount eng'
    \<and> errorCount eng \<le> errorCount eng'
    \<and> successCount eng' + errorCount eng' = successCount eng + errorCount eng + 1"
  by (cases "analysisFunction args") (simp_all add: safeExecute_def tryCatch_def)

subsection \<open>MomentumEngine: the gap between matches\<close>

lemma daysBetween_mono: "x \<le> y \<Longrightarrow> daysBetween y c \<le> daysBetween x c"
  by (simp add: daysBetween_def divide_right_mono)

lemma momentumInv_snoc:
  assumes inv: "momentumInv (ms, lst)"
    and far: "case lst of None \<Rightarrow> True | Some l \<Rightarrow> \<not> daysBetween l c < minGapDays"
    and m: "matchDate m = c"
  shows "momentumInv (ms @ [m], Some c)"
proof -
  have sorted: "sorted_wrt gapOK ms"
    using inv by (simp add: momentumInv_def)
  have below: "\<And>x. x \<in> set ms \<Longrightarrow> \<exists>l. lst = Some l \<and> matchDate x \<le> l"
    using inv by (auto simp: momentumInv_def list_all_iff split: option.splits)
  have gap: "gapOK x m" if "x \<in> set ms" for x
  proof -
    from below[OF that] obtain l where l: "lst = Some l" "matchDate x \<le> l"
      by blast
    with far have "minGapDays \<le> daysBetween l c"
      by simp
    moreover have "daysBetween l c \<le> daysBetween (matchDate x) c"
      using l(2) by (rule daysBetween_mono)
    ultimately show ?thesis
      by (simp add: gapOK_def m)
  qed
  have le: "matchDate x \<le> c" if "x \<in> set ms" for x
  proof -
    from gap[OF that] have "0 \<le> daysBetween (matchDate x) c"
      by (simp add: gapOK_def minGapDays_def m)
    then show ?thesis
      by (simp add: daysBetween_def zero_le_divide_iff)
  qed
  show ?thesis
    using sorted gap le by (simp add: momentumInv_def sorted_wrt_append list_all_iff m)
qed

lemma momentumBody_inv:
  assumes "momentumInv st"
  shows "momentumInv (momentumBody pts ds mtype thr i st)"
proof -
  obtain ms lst where st: "st = (ms, lst)"
    by (cases st)
  show ?thesis
    using assms unfolding st
    by (auto simp: momentumBody_def Let_def split: option.splits prod.splits
        intro!: momentumInv_snoc)
qed

lemma momentumLoop_inv:
  "momentumInv st \<Longrightarrow> momentumInv (momentumLoop pts ds mtype thr i st)"
proof (induction pts ds mtype thr i st rule: momentumLoop.induct)
  case (1 pts ds mtype thr i st)
  show ?case
  proof (cases "i + ds < length pts")
    case True
    then show ?thesis
      using "1.IH" "1.prems" momentumBody_inv by (subst momentumLoop.simps) simp
  next
    case False
    then show ?thesis
      using "1.prems" by (subst momentumLoop.simps) simp
  qed
qed

lemma analyzeMomentum_matches:
  assumes "analyzeMomentum h data params = Inr (res, h')"
  shows "matches res =
         fst (momentumLoop (map h' data) (days params) (momentum_type params)
                (threshold params) (sma_period params) ([], None))"
proof (cases "sma_period params = 0")
  case True
  with assms show ?thesis
    by (simp add: analyzeMomentum_def calculateSMA_def)
next
  case False
  with assms show ?thesis
    by (auto simp: analyzeMomentum_def calculateSMA_def Let_def)
qed

text \<open>
  C6. In the match list that \<open>_analyzeMomentum\<close> returns, every match ends at least
  \<open>minGapDays = 30\<close> days after each match before it in the list, so any two matches are at
  least 30 days apart; and an iteration of the loop whose window ends less than 30 days
  after \<open>lastMatchDate\<close> leaves the match list and \<open>lastMatchDate\<close> as they are.
\<close>

theorem momentum_matches_min_gap:
  assumes "analyzeMomentum h data params = Inr (res, h')"
  shows "sorted_wrt (\<lambda>x y. minGapDays \<le> daysBetween (matchDate x) (matchDate y)) (matches res)
       \<and> (\<forall>pts ds mtype thr i ms l.
             daysBetween l (date (pts ! (i + ds))) < minGapDays \<longrightarrow>
             momentumBody pts ds mtype thr i (ms, Some l) = (ms, Some l))"
proof -
  have "momentumInv ([], None)"
    by (simp add: momentumInv_def)
  then have "momentumInv (momentumLoop (map h' data) (days params) (momentum_type params)
                           (threshold params) (sma_period params) ([], None))"
    by (rule momentumLoop_inv)
  then have "sorted_wrt gapOK (matches res)"
    by (simp add: momentumInv_def analyzeMomentum_matches[OF assms])
  then show ?thesis
    by (simp add: gapOK_def[abs_def] momentumBody_def Let_def)
qed

theorem momentum_matches_min_gap_witness:
  "\<exists>res h'. analyzeMomentum risingStore [0, 1, 2, 3, 4] risingParams = Inr (res, h')
     \<and> map matchDate (matches res) = [120 * msPerDay, 160 * msPerDay]
     \<and> sorted_wrt (\<lambda>x y. minGapDays \<le> daysBetween (matchDate x) (matchDate y)) (matches res)
     \<and> momentumBody (map h' [0, 1, 2, 3, 4]) 1 ''bullish'' 1.2 3 (matches res, Some (150 * msPerDay))
         = (matches res, Some (150 * msPerDay))"
proof -
  have "\<not> isl (analyzeMomentum risingStore [0, 1, 2, 3, 4] risingParams)"
    by (simp add: analyzeMomentum_def calculateSMA_def risingParams_def Let_def)
  then obtain res h' where
    eq: "analyzeMomentum risingStore [0, 1, 2, 3, 4] risingParams = Inr (res, h')"
    by (cases "analyzeMomentum risingStore [0, 1, 2, 3, 4] risingParams") auto
  have "map matchDate
          (matches (fst (projr (analyzeMomentum risingStore [0, 1, 2, 3, 4] risingParams))))
        = [120 * msPerDay, 160 * msPerDay]"
    by code_simp
  then have dates: "map matchDate (matches res) = [120 * msPerDay, 160 * msPerDay]"
    by (simp only: eq sum.sel fst_conv)
  have "date (snd (projr (analyzeMomentum risingStore [0, 1, 2, 3, 4] risingParams)) 4)
        = 160 * msPerDay"
    by code_simp
  then have "date (h' 4) = 160 * msPerDay"
    by (simp only: eq sum.sel snd_conv)
  then have near: "daysBetween (150 * msPerDay) (date (map h' [0, 1, 2, 3, 4] ! (3 + 1))) < minGapDays"
    by (simp add: daysBetween_def minGapDays_def msPerDay_def)
  note gap = momentum_matches_min_gap[OF eq, THEN conjunct1]
  note skip = momentum_matches_min_gap[OF eq, THEN conjunct2, rule_format, OF near]
  show ?thesis
    by (intro exI[of _ res] exI[of _ h'] conjI eq dates gap skip)
qed

text \<open>
  C9. \<open>_calculateSMA\<close> copies the array but not the objects in it, so the \<open>sma\<close> it
  stores is stored in the price points of the input series. On the rising five-point
  series, with \<open>sma_period = 2\<close>, the third point has no \<open>sma\<close> before
  \<open>MomentumEngine.analyze\<close> and \<open>sma = 2.5\<close> after it.
\<close>

theorem momentum_analyze_writes_sma_into_input:
  "sma (risingStore 2) = None
   \<and> (case momentumAnalyze (newEngine ''Momentum Patterns'') risingStore [0, 1, 2, 3, 4] risingParams of
        Inr (Success res, eng', h') \<Rightarrow> sma (h' 2) = Some (5 / 2)
      | _ \<Rightarrow> False)"
  by code_simp

subsection \<open>VolatilityEngine: the gap-down condition\<close>

text \<open>What the loop decides for \<open>price_condition = 'gap_down'\<close>: a day matches when the
  volatility close reaches the threshold and either the close-to-close change is below
  \<open>-|price_threshold|\<close> or the gap is at most \<open>-|price_threshold|\<close>.\<close>

lemma volatilityPriceConditionMet_gap_down:
  "volatilityPriceConditionMet alignedData ''gap_down'' pt i =
     (((close (entry_a (alignedData ! i)) - close (entry_a (alignedData ! (i - 1))))
          / close (entry_a (alignedData ! (i - 1)))) * 100 < - \<bar>pt\<bar>
      \<or> ((openPrice (entry_a (alignedData ! i)) - close (entry_a (alignedData ! (i - 1))))
          / close (entry_a (alignedData ! (i - 1)))) * 100 \<le> - \<bar>pt\<bar>)"
  by (auto simp: volatilityPriceConditionMet_def Let_def)

text \<open>
  C5. On the two-day series that closes at 100 and then opens at 100 and closes at 95,
  with the volatility index at 30, \<open>vix_threshold = 25\<close>, \<open>price_condition = 'gap_down'\<close>
  and \<open>price_threshold = 2\<close>, the gap of the second day is 0, which is not at most -2, and
  the loop of \<open>_analyzeVolatility\<close> records the day as a match all the same, since its
  close-to-close change is -5. Run through \<open>analyze\<close>, the method throws before it
  reaches the loop, and the result is a failure.
\<close>

theorem volatility_gap_down_matches_without_gap:
  "((openPrice (entry_a (flatOpenSeries ! 1)) - close (entry_a (flatOpenSeries ! 0)))
      / close (entry_a (flatOpenSeries ! 0))) * 100 = 0
   \<and> map vol_date (volatilityMatches flatOpenSeries gapDownParams) = [msPerDay]
   \<and> map price_change (volatilityMatches flatOpenSeries gapDownParams) = [- 5]
   \<and> volatilityAnalyze (newEngine ''Volatility Events'') (Inr vixData) data gapDownParams
       = Inr (Failure ''Volatility Events analysis unavailable: data is not defined''
                ''Volatility Events engine is temporarily unavailable. Please try again later.'',
              (newEngine ''Volatility Events'')
                \<lparr>errorCount := 1, lastError := Some ''data is not defined'', isHealthy := False\<rparr>)"
proof (intro conjI)
  show "((openPrice (entry_a (flatOpenSeries ! 1)) - close (entry_a (flatOpenSeries ! 0)))
      / close (entry_a (flatOpenSeries ! 0))) * 100 = 0"
    by (simp add: flatOpenSeries_def)
  show "map vol_date (volatilityMatches flatOpenSeries gapDownParams) = [msPerDay]"
    by (simp add: volatilityMatches_def volatilityBody_def volatilityPriceConditionMet_def
        flatOpenSeries_def gapDownParams_def Let_def)
  show "map price_change (volatilityMatches flatOpenSeries gapDownParams) = [- 5]"
    by (simp add: volatilityMatches_def volatilityBody_def volatilityPriceConditionMet_def
        flatOpenSeries_def gapDownParams_def Let_def)
  show "volatilityAnalyze (newEngine ''Volatility Events'') (Inr vixData) data gapDownParams
       = Inr (Failure ''Volatility Events analysis unavailable: data is not defined''
                ''Volatility Events engine is temporarily unavailable. Please try again later.'',
              (newEngine ''Volatility Events'')
                \<lparr>errorCount := 1, lastError := Some ''data is not defined'', isHealthy := False\<rparr>)"
    by (simp add: volatilityAnalyze_def safeExecute_def tryCatch_def analyzeVolatility_def
        newEngine_def getFallbackMessage_def)
qed

subsection \<open>TOYBarometerEngine\<close>

lemma analyzeTOYPeriod_year:
  "analyzeTOYPeriod y ts te dbd data thr fwd = Inr r \<Longrightarrow> event_year (event r) = y"
  by (auto simp: analyzeTOYPeriod_def Let_def split: prod.splits option.splits sum.splits)

lemma analyzeTOYPeriod_no_trading_day:
  assumes "findNearestTradingDay (fst (toyWindow y ts te)) dbd ''after'' = None
         \<or> findNearestTradingDay (snd (toyWindow y ts te)) dbd ''after'' = None"
  shows "analyzeTOYPeriod y ts te dbd data thr fwd
         = Inl (Error (''No trading days found for TOY period '' @ showInt y))"
  using assms
  by (auto simp: analyzeTOYPeriod_def Let_def split: prod.splits option.splits)

lemma toyYears_foldl:
  fixes period :: "int \<Rightarrow> jsError + toyPeriod"
  assumes "\<And>y. period y = analyzeTOYPeriod y ts te dbd data thr fwd"
  shows "foldl (toyYearStep ts te dbd data thr fwd) (ev, ps, ws) ys =
     (ev @ map (\<lambda>y. event (projr (period y))) (filter (\<lambda>y. \<not> isl (period y)) ys),
      ps @ map (\<lambda>y. projr (period y)) (filter (\<lambda>y. \<not> isl (period y)) ys),
      ws @ map (\<lambda>y. (y, message (projl (period y)))) (filter (\<lambda>y. isl (period y)) ys))"
proof (induction ys arbitrary: ev ps ws)
  case Nil
  show ?case by simp
next
  case (Cons y ys)
  show ?case
  proof (cases "period y")
    case (Inl e)
    then have "toyYearStep ts te dbd data thr fwd (ev, ps, ws) y = (ev, ps, ws @ [(y, message e)])"
      by (simp add: toyYearStep_def assms[symmetric])
    then show ?thesis using Inl Cons.IH by simp
  next
    case (Inr r)
    then have "toyYearStep ts te dbd data thr fwd (ev, ps, ws) y = (ev @ [event r], ps @ [r], ws)"
      by (simp add: toyYearStep_def assms[symmetric])
    then show ?thesis using Inr Cons.IH by simp
  qed
qed


text \<open>Whatever the parameters and the fetch do, \<open>analyze\<close> returns, and one of the two
  counters has grown by one.\<close>

lemma toyAnalyze_returns:
  "\<exists>res eng' warnings.
     toyAnalyze eng currentYear getHistoricalData parameters = Inr (res, eng', warnings)
   \<and> successCount eng' + errorCount eng' = successCount eng + errorCount eng + 1"
  by (auto simp: toyAnalyze_def tryCatch_def Let_def split: sum.splits prod.splits)

text \<open>
  C7. When the dates are valid and a non-empty series was fetched, \<open>analyze\<close> returns a
  success, whatever the years do: the analyzed periods are those of the years from
  \<open>first_year\<close> to \<open>last_year\<close>, in order, whose \<open>analyzeTOYPeriod\<close> returned; every
  other year is absent from the result and has its warning with the message of the throw;
  and a year with a boundary for which \<open>findNearestTradingDay\<close> finds no trading day is
  one that throws.
\<close>

theorem toy_year_failure_is_not_fatal:
  assumes args: "args = destructure currentYear parameters"
    and valid: "validateTOYDates (toyStartArg args) (toyEndArg args) = []"
    and fetched: "getHistoricalData (tickerArg args) = Inr data"
    and nonempty: "data \<noteq> []"
    and period: "period = (\<lambda>y. analyzeTOYPeriod y (toyStartArg args) (toyEndArg args)
                                (buildDataByDate data) data (thresholdArg args) (forwardDaysArg args))"
  shows "\<exists>d eng' warnings.
      toyAnalyze eng currentYear getHistoricalData parameters = Inr (Success d, eng', warnings)
    \<and> map event_year (toy_matches d)
        = filter (\<lambda>y. \<not> isl (period y)) [firstYearArg args .. lastYearArg args]
    \<and> toyPeriods d
        = map (\<lambda>y. projr (period y))
            (filter (\<lambda>y. \<not> isl (period y)) [firstYearArg args .. lastYearArg args])
    \<and> warnings
        = map (\<lambda>y. (y, message (projl (period y))))
            (filter (\<lambda>y. isl (period y)) [firstYearArg args .. lastYearArg args])
    \<and> (\<forall>y. findNearestTradingDay (fst (toyWindow y (toyStartArg args) (toyEndArg args)))
               (buildDataByDate data) ''after'' = None
           \<or> findNearestTradingDay (snd (toyWindow y (toyStartArg args) (toyEndArg args)))
               (buildDataByDate data) ''after'' = None
           \<longrightarrow> period y = Inl (Error (''No trading days found for TOY period '' @ showInt y)))"
proof -
  let ?years = "[firstYearArg args .. lastYearArg args]"
  let ?ok = "filter (\<lambda>y. \<not> isl (period y)) ?years"
  let ?bad = "filter (\<lambda>y. isl (period y)) ?years"
  let ?step = "toyYearStep (toyStartArg args) (toyEndArg args) (buildDataByDate data) data
                 (thresholdArg args) (forwardDaysArg args)"
  have p: "\<And>y. period y = analyzeTOYPeriod y (toyStartArg args) (toyEndArg args)
                   (buildDataByDate data) data (thresholdArg args) (forwardDaysArg args)"
    by (simp add: period)
  have loop: "foldl ?step ([], [], []) ?years =
      (map (\<lambda>y. event (projr (period y))) ?ok,
       map (\<lambda>y. projr (period y)) ?ok,
       map (\<lambda>y. (y, message (projl (period y)))) ?bad)"
    using toyYears_foldl[of period, OF p, of "[]" "[]" "[]" ?years] by simp
  have years: "map (\<lambda>y. event_year (event (projr (period y)))) ?ok = ?ok"
  proof -
    have "event_year (event (projr (period y))) = y" if "\<not> isl (period y)" for y
    proof -
      from that obtain r where r: "period y = Inr r"
        by (cases "period y") auto
      then have "event_year (event r) = y"
        unfolding p by (rule analyzeTOYPeriod_year)
      then show ?thesis
        by (simp add: r)
    qed
    then show ?thesis
      by (intro map_idI) (simp add: comp_def)
  qed
  have run: "toyAnalyze eng currentYear getHistoricalData parameters =
      Inr (Success \<lparr>toy_matches = map (\<lambda>y. event (projr (period y))) ?ok,
                    total_periods = length ?ok,
                    toy_summary = calculateTOYSummary (map (\<lambda>y. projr (period y)) ?ok)
                                    (thresholdArg args),
                    toyPeriods = map (\<lambda>y. projr (period y)) ?ok\<rparr>,
           eng\<lparr>successCount := successCount eng + 1, isHealthy := True, lastError := None\<rparr>,
           map (\<lambda>y. (y, message (projl (period y)))) ?bad)"
    using valid fetched nonempty loop
    by (simp add: toyAnalyze_def tryCatch_def Let_def args[symmetric])
  have missing: "period y = Inl (Error (''No trading days found for TOY period '' @ showInt y))"
    if "findNearestTradingDay (fst (toyWindow y (toyStartArg args) (toyEndArg args)))
               (buildDataByDate data) ''after'' = None
           \<or> findNearestTradingDay (snd (toyWindow y (toyStartArg args) (toyEndArg args)))
               (buildDataByDate data) ''after'' = None" for y
    using analyzeTOYPeriod_no_trading_day[OF that] by (simp add: p)
  show ?thesis
    using run years missing by (simp add: comp_def)
qed

theorem toy_year_failure_is_not_fatal_witness:
  "\<exists>d eng' warnings.
      toyAnalyze (newEngine ''TOY (Turn of Year)'') 2024 (\<lambda>t. Inr turnOfYearSeries)
        threeYearParameters = Inr (Success d, eng', warnings)
    \<and> map event_year (toy_matches d) = [2020]
    \<and> map fst warnings = [2021, 2022]"
proof -
  define args where "args = destructure 2024 threeYearParameters"
  define period where "period = (\<lambda>y. analyzeTOYPeriod y (toyStartArg args) (toyEndArg args)
      (buildDataByDate turnOfYearSeries) turnOfYearSeries (thresholdArg args) (forwardDaysArg args))"
  have valid: "validateTOYDates (toyStartArg args) (toyEndArg args) = []"
    unfolding args_def by code_simp
  have fetched: "(\<lambda>t. Inr turnOfYearSeries) (tickerArg args) = Inr turnOfYearSeries"
    by simp
  have nonempty: "turnOfYearSeries \<noteq> []"
    by (simp add: turnOfYearSeries_def)
  have ok: "filter (\<lambda>y. \<not> isl (period y)) [firstYearArg args .. lastYearArg args] = [2020]"
    unfolding period_def args_def by code_simp
  have bad: "filter (\<lambda>y. isl (period y)) [firstYearArg args .. lastYearArg args] = [2021, 2022]"
    unfolding period_def args_def by code_simp
  from toy_year_failure_is_not_fatal[OF args_def valid fetched nonempty period_def,
      of "newEngine ''TOY (Turn of Year)''"]
  obtain d eng' warnings where
    "toyAnalyze (newEngine ''TOY (Turn of Year)'') 2024 (\<lambda>t. Inr turnOfYearSeries)
        threeYearParameters = Inr (Success d, eng', warnings)"
    "map event_year (toy_matches d)
        = filter (\<lambda>y. \<not> isl (period y)) [firstYearArg args .. lastYearArg args]"
    "warnings = map (\<lambda>y. (y, message (projl (period y))))
            (filter (\<lambda>y. isl (period y)) [firstYearArg args .. lastYearArg args])"
    by blast
  then show ?thesis
    by (simp add: ok bad comp_def)
qed

text \<open>
  C2. \<open>analyze\<close> tests the two dates with \<open>validateTOYDates\<close> and never calls
  \<open>validateParameters\<close>. With \<open>threshold = 25\<close> and \<open>first_year = last_year = 2020\<close>,
  which \<open>validateParameters\<close> reports as two errors, \<open>analyze\<close> fetches the series,
  analyzes the year 2020 and returns a success.
\<close>

theorem toy_analyze_skips_validateParameters:
  "validateParameters outOfRangeParameters
     = [''Threshold should be between 0% and 20%'', ''First year must be before last year'']
   \<and> (case toyAnalyze (newEngine ''TOY (Turn of Year)'') 2024 (\<lambda>t. Inr turnOfYearSeries)
              outOfRangeParameters of
        Inr (Success d, eng', warnings) \<Rightarrow>
          map event_year (toy_matches d) = [2020] \<and> map event_signal (toy_matches d) = [Neutral]
      | _ \<Rightarrow> False)"
  by code_simp

lemma findNearestTradingDay_exact:
  "mapHas dataByDate (isoDay targetDate) \<Longrightarrow>
   findNearestTradingDay targetDate dataByDate direction = Some (isoDay targetDate)"
  by (simp add: findNearestTradingDay_def)

text \<open>
  C3. The nominal date 2023-12-30 is not a trading day of the series whose trading days
  are 2024-01-02 and 2024-02-02. The first trading day after it is 2024-01-02, three days
  later; \<open>findNearestTradingDay\<close> returns 2024-02-02, 34 days later, since the third step
  of the search sets day 33 of January. On the series whose only trading day is
  2024-01-02 it returns \<open>null\<close>.
\<close>

theorem findNearestTradingDay_jumps_a_month:
  "mapHas (buildDataByDate newYearSeries) (isoDay (newDate 2024 0 2))
   \<and> isoDay (newDate 2024 0 2) - isoDay (newDate 2023 11 30) = 3
   \<and> findNearestTradingDay (newDate 2023 11 30) (buildDataByDate newYearSeries) ''after''
       = Some (isoDay (newDate 2024 1 2))
   \<and> isoDay (newDate 2024 1 2) - isoDay (newDate 2023 11 30) = 34
   \<and> findNearestTradingDay (newDate 2023 11 30) (buildDataByDate [pointAt 2024 1 2 100]) ''after''
       = None"
  by code_simp

subsection \<open>ExtendedForwardReturnsCalculator\<close>







text \<open>
  C8. For every series and every \<open>customPeriods\<close>, \<open>calculate\<close> on a missing or an
  empty match list returns, without a throw, the result with no rows, total matches 0,
  the message, and the empty performance table with its message.
\<close>

theorem calculate_empty_matches:
  "calculate data None customPeriods
     = Inr \<lparr>results = [],
            calc_summary =
              \<lparr>totalMatches = 0,
               summary_message = Some ''No historical instances found for this event pattern''\<rparr>,
            performanceTable =
              \<lparr>headers = tableHeaders, rows = [],
               table_message = Some ''No historical matches found for analysis''\<rparr>\<rparr>
   \<and> calculate data (Some []) customPeriods
     = Inr \<lparr>results = [],
            calc_summary =
              \<lparr>totalMatches = 0,
               summary_message = Some ''No historical instances found for this event pattern''\<rparr>,
            performanceTable =
              \<lparr>headers = tableHeaders, rows = [],
               table_message = Some ''No historical matches found for analysis''\<rparr>\<rparr>"
  by (simp add: calculate_def getEmptyPerformanceTable_def)

subsection \<open>ContextualFilterService\<close>

lemma subseq_applyFilter: "subseq (applyFilter parseDate additional ds flt) ds"
  by (simp add: applyFilter_def filterByDayOfWeek_def Let_def split: option.splits)

lemma subseq_foldl_applyFilter:
  "subseq (foldl (applyFilter parseDate additional) ds filters) ds"
proof (induction filters arbitrary: ds)
  case Nil
  show ?case by simp
next
  case (Cons flt filters)
  have "subseq (foldl (applyFilter parseDate additional) (applyFilter parseDate additional ds flt) filters)
          (applyFilter parseDate additional ds flt)"
    by (rule Cons.IH)
  then show ?case
    using subseq_applyFilter[of parseDate additional ds flt]
    by (auto intro: subseq_order.order_trans)
qed

text \<open>
  C10. For every list of dates, every list of filters and every additional-filters
  object, the list that \<open>applyContextFilters\<close> returns is a subsequence of the input
  list: its dates are dates of the input, in their order, none added. A filter name that
  is not one of the five, \<open>DAY_OF_WEEK\<close> without \<open>day_filter\<close>, and \<open>MONTH_OF_YEAR\<close>
  without \<open>month_filter\<close> leave the list of their step unchanged.
\<close>

theorem applyContextFilters_subseq:
  "subseq (applyContextFilters parseDate dates filters additional) dates
   \<and> (\<forall>ds flt. flt \<notin> set [''EARNINGS_SEASON'', ''FED_MEETING'', ''OPTIONS_EXPIRATION'',
                             ''DAY_OF_WEEK'', ''MONTH_OF_YEAR'']
        \<longrightarrow> applyFilter parseDate additional ds flt = ds)
   \<and> (\<forall>ds. day_filter additional = None
        \<longrightarrow> applyFilter parseDate additional ds ''DAY_OF_WEEK'' = ds)
   \<and> (\<forall>ds. month_filter additional = None
        \<longrightarrow> applyFilter parseDate additional ds ''MONTH_OF_YEAR'' = ds)"
  by (simp add: applyContextFilters_def subseq_foldl_applyFilter applyFilter_def)

theorem applyContextFilters_subseq_witness:
  "applyContextFilters parseThree fourDates [''DAY_OF_WEEK'', ''WEEKEND'', ''EARNINGS_SEASON'']
     noAdditional = [''2024-01-31'', ''2024-02-15'']
   \<and> subseq (applyContextFilters parseThree fourDates
               [''DAY_OF_WEEK'', ''WEEKEND'', ''EARNINGS_SEASON''] noAdditional) fourDates
   \<and> applyFilter parseThree noAdditional fourDates ''WEEKEND'' = fourDates
   \<and> applyFilter parseThree noAdditional fourDates ''DAY_OF_WEEK'' = fourDates
   \<and> applyFilter parseThree noAdditional fourDates ''MONTH_OF_YEAR'' = fourDates"
proof -
  note all = applyContextFilters_subseq[of parseThree fourDates
      "[''DAY_OF_WEEK'', ''WEEKEND'', ''EARNINGS_SEASON'']" noAdditional]
  have kept: "applyContextFilters parseThree fourDates
      [''DAY_OF_WEEK'', ''WEEKEND'', ''EARNINGS_SEASON''] noAdditional = [''2024-01-31'', ''2024-02-15'']"
    by code_simp
  have unknown: "''WEEKEND'' \<notin> set [''EARNINGS_SEASON'', ''FED_MEETING'', ''OPTIONS_EXPIRATION'',
                             ''DAY_OF_WEEK'', ''MONTH_OF_YEAR'']"
    by simp
  have no_days: "day_filter noAdditional = None" and no_months: "month_filter noAdditional = None"
    by (simp_all add: noAdditional_def)
  note sub = all[THEN conjunct1]
  note step1 = all[THEN conjunct2, THEN conjunct1, rule_format, OF unknown, of fourDates]
  note step2 = all[THEN conjunct2, THEN conjunct2, THEN conjunct1, rule_format, OF no_days, of fourDates]
  note step3 = all[THEN conjunct2, THEN conjunct2, THEN conjunct2, rule_format, OF no_months, of fourDates]
  show ?thesis
    by (intro conjI kept sub step1 step2 step3)
qed

end
